theory Spec2Isabelle
  imports Main "HOL-Library.Word" "HOL-Library.AList"
begin

section \<open>JavaScript values\<close>

datatype jsval =
    JUndefined
  | JNull
  | JBool bool
  | JNum int
  | JNaN
  | JStr string
  | JArr "jsval list"
  | JObj "(string \<times> jsval) list"

text \<open>What \<open>!v\<close>, \<open>v || w\<close> and \<open>if (v)\<close> test.\<close>

fun truthy :: "jsval \<Rightarrow> bool" where
  "truthy JUndefined = False"
| "truthy JNull = False"
| "truthy (JBool b) = b"
| "truthy (JNum n) = (n \<noteq> 0)"
| "truthy JNaN = False"
| "truthy (JStr s) = (s \<noteq> [])"
| "truthy (JArr xs) = True"
| "truthy (JObj kvs) = True"

definition js_or :: "jsval \<Rightarrow> jsval \<Rightarrow> jsval" where
  "js_or v w = (if truthy v then v else w)"

text \<open>Reading a property of an object literal or of a parsed query string.\<close>

definition obj_get :: "(string \<times> jsval) list \<Rightarrow> string \<Rightarrow> jsval" where
  "obj_get obj k = (case map_of obj k of None \<Rightarrow> JUndefined | Some v \<Rightarrow> v)"

text \<open>
  What a \<open>throw\<close> or a rejected promise carries: an \<open>Error\<close> object, identified
  by its \<open>name\<close>, or any other value.
\<close>

datatype exn = Error string | Thrown jsval

definition TypeError :: exn where
  "TypeError = Error ''TypeError''"

definition URIError :: exn where
  "URIError = Error ''URIError''"

definition RangeError :: exn where
  "RangeError = Error ''RangeError''"

text \<open>\<open>v.k\<close> for any value: reading a property of \<open>undefined\<close> or \<open>null\<close> throws.\<close>

fun js_get :: "jsval \<Rightarrow> string \<Rightarrow> exn + jsval" where
  "js_get JUndefined k = Inl TypeError"
| "js_get JNull k = Inl TypeError"
| "js_get (JObj kvs) k = Inr (obj_get kvs k)"
| "js_get v k = Inr JUndefined"

text \<open>\<open>error.name\<close> of a caught value.\<close>

fun exn_name :: "exn \<Rightarrow> exn + jsval" where
  "exn_name (Error n) = Inr (JStr n)"
| "exn_name (Thrown v) = js_get v ''name''"

text \<open>An optional string (a query parameter, a cookie, a configured URL) as a value.\<close>

definition of_opt :: "string option \<Rightarrow> jsval" where
  "of_opt x = (case x of None \<Rightarrow> JUndefined | Some s \<Rightarrow> JStr s)"

text \<open>The object literal \<open>{...a, ...b}\<close>: a key of \<open>b\<close> replaces the same key of \<open>a\<close>.\<close>

definition spread :: "(string \<times> jsval) list \<Rightarrow> (string \<times> jsval) list \<Rightarrow> (string \<times> jsval) list" where
  "spread a b = foldl (\<lambda>acc (k, v). AList.update k v acc) a b"

section \<open>Text and byte codecs of the platform\<close>

text \<open>
  The callback handler and the Discourse sign-in initiation are JavaScript for Node.js.
  A JavaScript string is represented here by the list of the bytes of its UTF-8
  encoding (an Isabelle \<open>string\<close>), so \<open>Buffer.from(s)\<close> is the identity and
  \<open>buf.toString('utf8')\<close> is the UTF-8 decoder that replaces every ill-formed
  subsequence by U+FFFD.  The functions of this section model the platform's library
  (\<open>Buffer\<close>, \<open>encodeURIComponent\<close>, \<open>decodeURIComponent\<close>, \<open>querystring\<close>); they
  are exact on ASCII text, which is all that hexadecimal, base64 and URL text contain.
\<close>

subsection \<open>Hexadecimal\<close>

definition hexdigit :: "nat \<Rightarrow> char" where
  "hexdigit n = (''0123456789abcdef'') ! (n mod 16)"

definition HEXDIGIT :: "nat \<Rightarrow> char" where
  "HEXDIGIT n = (''0123456789ABCDEF'') ! (n mod 16)"

text \<open>\<open>buf.toString('hex')\<close>: two lower-case digits per byte.\<close>

definition hex_of_bytes :: "8 word list \<Rightarrow> string" where
  "hex_of_bytes buf = concat (map (\<lambda>b. [hexdigit (unat b div 16), hexdigit (unat b)]) buf)"

text \<open>\<open>hmac.digest('hex')\<close> of a 256-bit digest: 64 lower-case digits, most significant first.\<close>

definition hex256 :: "256 word \<Rightarrow> string" where
  "hex256 w = map (\<lambda>i. hexdigit (unat (take_bit 4 (drop_bit (4 * (63 - i)) w)))) [0..<64]"

definition unhex :: "char \<Rightarrow> nat option" where
  "unhex c = (let n = (of_char c :: nat) in
     if 48 \<le> n \<and> n \<le> 57 then Some (n - 48)
     else if 65 \<le> n \<and> n \<le> 70 then Some (n - 55)
     else if 97 \<le> n \<and> n \<le> 102 then Some (n - 87)
     else None)"

subsection \<open>Base64\<close>

definition b64char :: "nat \<Rightarrow> char" where
  "b64char n =
     (if n < 26 then char_of (n + 65)
      else if n < 52 then char_of (n + 71)
      else if n < 62 then char_of (n - 4)
      else if n = 62 then CHR ''+'' else CHR ''/'')"

text \<open>\<open>buf.toString('base64')\<close>: the standard alphabet, padded with \<open>=\<close>.\<close>

fun base64_enc :: "string \<Rightarrow> string" where
  "base64_enc (a # b # c # rest) =
     (let x = (of_char a :: nat); y = (of_char b :: nat); z = (of_char c :: nat)
      in b64char (x div 4) # b64char (x mod 4 * 16 + y div 16) #
         b64char (y mod 16 * 4 + z div 64) # b64char (z mod 64) # base64_enc rest)"
| "base64_enc [a, b] =
     (let x = (of_char a :: nat); y = (of_char b :: nat)
      in [b64char (x div 4), b64char (x mod 4 * 16 + y div 16), b64char (y mod 16 * 4), CHR ''=''])"
| "base64_enc [a] =
     (let x = (of_char a :: nat)
      in [b64char (x div 4), b64char (x mod 4 * 16), CHR ''='', CHR ''=''])"
| "base64_enc [] = []"

text \<open>
  \<open>Buffer.from(s, 'base64')\<close> is lenient: it accepts the URL-safe alphabet as well,
  skips every character outside both alphabets, and stops at the first \<open>=\<close>.  A final
  group of two or three characters yields one or two bytes; a single left-over
  character yields none.
\<close>

definition unbase64 :: "char \<Rightarrow> nat option" where
  "unbase64 c = (let n = (of_char c :: nat) in
     if 65 \<le> n \<and> n \<le> 90 then Some (n - 65)
     else if 97 \<le> n \<and> n \<le> 122 then Some (n - 71)
     else if 48 \<le> n \<and> n \<le> 57 then Some (n + 4)
     else if n = 43 \<or> n = 45 then Some 62
     else if n = 47 \<or> n = 95 then Some 63
     else None)"

fun b64_sextets :: "string \<Rightarrow> nat list" where
  "b64_sextets [] = []"
| "b64_sextets (c # cs) =
     (if c = CHR ''='' then []
      else (case unbase64 c of Some v \<Rightarrow> v # b64_sextets cs | None \<Rightarrow> b64_sextets cs))"

fun b64_groups :: "nat list \<Rightarrow> string" where
  "b64_groups (a # b # c # d # rest) =
     char_of (a * 4 + b div 16) # char_of (b mod 16 * 16 + c div 4) # char_of (c mod 4 * 64 + d) #
     b64_groups rest"
| "b64_groups [a, b, c] = [char_of (a * 4 + b div 16), char_of (b mod 16 * 16 + c div 4)]"
| "b64_groups [a, b] = [char_of (a * 4 + b div 16)]"
| "b64_groups [a] = []"
| "b64_groups [] = []"

definition base64_dec :: "string \<Rightarrow> string" where
  "base64_dec s = b64_groups (b64_sextets s)"

subsection \<open>UTF-8\<close>

definition REPLACEMENT :: string where
  "REPLACEMENT = [char_of (239::nat), char_of (191::nat), char_of (189::nat)]"

definition in_range :: "nat \<Rightarrow> nat \<Rightarrow> char \<Rightarrow> bool" where
  "in_range lo hi c = (lo \<le> (of_char c :: nat) \<and> (of_char c :: nat) \<le> hi)"

text \<open>
  \<open>buf.toString('utf8')\<close>.  A well-formed sequence is copied; otherwise the longest
  prefix of a well-formed sequence (at least the offending byte) becomes one U+FFFD
  and decoding resumes at the byte that broke the sequence.  The second byte of a
  three- or four-byte sequence has the narrowed range that excludes over-long forms,
  surrogates and code points above U+10FFFF.
\<close>

definition second_lo :: "char \<Rightarrow> nat" where
  "second_lo b = (if (of_char b :: nat) = 224 then 160 else if (of_char b :: nat) = 240 then 144 else 128)"

definition second_hi :: "char \<Rightarrow> nat" where
  "second_hi b = (if (of_char b :: nat) = 237 then 159 else if (of_char b :: nat) = 244 then 143 else 191)"

fun utf8_toString :: "string \<Rightarrow> string" where
  "utf8_toString [] = []"
| "utf8_toString (b # bs) =
     (if in_range 0 127 b then b # utf8_toString bs
      else if in_range 194 223 b then
        (case bs of
           [] \<Rightarrow> REPLACEMENT
         | c # cs \<Rightarrow>
             if in_range 128 191 c then b # c # utf8_toString cs
             else REPLACEMENT @ utf8_toString (c # cs))
      else if in_range 224 239 b then
        (case bs of
           [] \<Rightarrow> REPLACEMENT
         | c # cs \<Rightarrow>
             if in_range (second_lo b) (second_hi b) c then
               (case cs of
                  [] \<Rightarrow> REPLACEMENT
                | d # ds \<Rightarrow>
                    if in_range 128 191 d then b # c # d # utf8_toString ds
                    else REPLACEMENT @ utf8_toString (d # ds))
             else REPLACEMENT @ utf8_toString (c # cs))
      else if in_range 240 244 b then
        (case bs of
           [] \<Rightarrow> REPLACEMENT
         | c # cs \<Rightarrow>
             if in_range (second_lo b) (second_hi b) c then
               (case cs of
                  [] \<Rightarrow> REPLACEMENT
                | d # ds \<Rightarrow>
                    if in_range 128 191 d then
                      (case ds of
                         [] \<Rightarrow> REPLACEMENT
                       | e # es \<Rightarrow>
                           if in_range 128 191 e then b # c # d # e # utf8_toString es
                           else REPLACEMENT @ utf8_toString (e # es))
                    else REPLACEMENT @ utf8_toString (d # ds))
             else REPLACEMENT @ utf8_toString (c # cs))
      else REPLACEMENT @ utf8_toString bs)"

subsection \<open>URI escapes\<close>

text \<open>The byte written as \<open>%XX\<close> at the head of a string, if there is one.\<close>

fun pct_at :: "string \<Rightarrow> nat option" where
  "pct_at (p # h # l # rest) =
     (if p = CHR ''%'' then
        (case unhex h of
           None \<Rightarrow> None
         | Some a \<Rightarrow> (case unhex l of None \<Rightarrow> None | Some b \<Rightarrow> Some (16 * a + b)))
      else None)"
| "pct_at _ = None"

text \<open>The \<open>n\<close> escaped continuation bytes \<open>%XX\<close> (\<open>10xxxxxx\<close>) at the head of a string.\<close>

fun pct_conts :: "nat \<Rightarrow> string \<Rightarrow> string option" where
  "pct_conts 0 s = Some []"
| "pct_conts (Suc n) s =
     (case pct_at s of
        None \<Rightarrow> None
      | Some b \<Rightarrow>
          if 128 \<le> b \<and> b < 192 then map_option ((#) (char_of b)) (pct_conts n (drop 3 s))
          else None)"

text \<open>The number of bytes a lead byte announces; 0 when the byte cannot lead a sequence.\<close>

definition seq_len :: "nat \<Rightarrow> nat" where
  "seq_len b =
     (if 192 \<le> b \<and> b < 224 then 2 else if 224 \<le> b \<and> b < 240 then 3
      else if 240 \<le> b \<and> b < 248 then 4 else 0)"

fun utf8_seq_ok :: "string \<Rightarrow> bool" where
  "utf8_seq_ok [b, c] = (in_range 194 223 b \<and> in_range 128 191 c)"
| "utf8_seq_ok [b, c, d] =
     (in_range 224 239 b \<and> in_range (second_lo b) (second_hi b) c \<and> in_range 128 191 d)"
| "utf8_seq_ok [b, c, d, e] =
     (in_range 240 244 b \<and> in_range (second_lo b) (second_hi b) c \<and> in_range 128 191 d \<and>
      in_range 128 191 e)"
| "utf8_seq_ok _ = False"

text \<open>
  \<open>decodeURIComponent\<close>: every \<open>%\<close> must start an escape \<open>%XX\<close>; an escaped byte
  below 128 is that character; an escaped byte from 128 must lead a well-formed
  UTF-8 sequence all of whose bytes are escaped.  Anything else throws \<open>URIError\<close>.
\<close>

fun decode_uri :: "string \<Rightarrow> string option" where
  "decode_uri [] = Some []"
| "decode_uri (c # cs) =
     (if c \<noteq> CHR ''%'' then map_option ((#) c) (decode_uri cs)
      else
        (case pct_at (c # cs) of
           None \<Rightarrow> None
         | Some b \<Rightarrow>
             if b < 128 then map_option ((#) (char_of b)) (decode_uri (drop 2 cs))
             else if seq_len b = 0 then None
             else
               (case pct_conts (seq_len b - 1) (drop 2 cs) of
                  None \<Rightarrow> None
                | Some bs \<Rightarrow>
                    if utf8_seq_ok (char_of b # bs)
                    then map_option ((@) (char_of b # bs))
                           (decode_uri (drop (2 + 3 * (seq_len b - 1)) cs))
                    else None)))"

definition decodeURIComponent :: "string \<Rightarrow> exn + string" where
  "decodeURIComponent s = (case decode_uri s of None \<Rightarrow> Inl URIError | Some r \<Rightarrow> Inr r)"

text \<open>
  \<open>encodeURIComponent\<close>: letters, digits and \<open>- _ . ! ~ * ' ( )\<close> are kept, every
  other byte of the UTF-8 encoding is written \<open>%XX\<close> with upper-case digits.
\<close>

definition uri_unreserved :: "char \<Rightarrow> bool" where
  "uri_unreserved c =
     (in_range 65 90 c \<or> in_range 97 122 c \<or> in_range 48 57 c \<or> c \<in> set ''-_.!~*'' \<or>
      (of_char c :: nat) = 39 \<or> c = CHR ''('' \<or> c = CHR '')'')"

definition encodeURIComponent :: "string \<Rightarrow> string" where
  "encodeURIComponent s =
     concat (map (\<lambda>c. if uri_unreserved c then [c]
                       else [CHR ''%'', HEXDIGIT (of_char c div 16), HEXDIGIT (of_char c)]) s)"

section \<open>Query strings\<close>

text \<open>
  \<open>querystring.unescapeBuffer\<close> walks the UTF-16 code units of its argument
  (\<open>charCodeAt\<close>) and writes one byte for each.  The code units of a string, from
  the bytes of its well-formed UTF-8 encoding (the only strings the handler parses
  come out of \<open>utf8_toString\<close>): a sequence of one, two or three bytes is one unit,
  a sequence of four bytes is a surrogate pair.
\<close>

fun utf16_units :: "string \<Rightarrow> nat list" where
  "utf16_units [] = []"
| "utf16_units (b # bs) =
     (let x = (of_char b :: nat) in
      if 240 \<le> x then
        (case bs of
           c # d # e # rest \<Rightarrow>
             (let cp = (x mod 8) * 262144 + (of_char c mod 64) * 4096 + (of_char d mod 64) * 64 +
                       of_char e mod 64
              in (55296 + (cp - 65536) div 1024) # (56320 + (cp - 65536) mod 1024) #
                 utf16_units rest)
         | _ \<Rightarrow> x # utf16_units bs)
      else if 224 \<le> x then
        (case bs of
           c # d # rest \<Rightarrow>
             ((x mod 16) * 4096 + (of_char c mod 64) * 64 + of_char d mod 64) # utf16_units rest
         | _ \<Rightarrow> x # utf16_units bs)
      else if 192 \<le> x then
        (case bs of
           c # rest \<Rightarrow> ((x mod 32) * 64 + of_char c mod 64) # utf16_units rest
         | [] \<Rightarrow> [x])
      else x # utf16_units bs)"

text \<open>
  The byte written as \<open>%XX\<close> at the head of the units (\<open>unhexTable\<close> knows the
  ASCII digits only).  Every \<open>%XX\<close> becomes its byte; any other unit, a \<open>%\<close> that
  starts no escape included, is stored in the buffer, which keeps its low eight
  bits.  \<open>querystring.unescape\<close> tries \<open>decodeURIComponent\<close> first and falls back
  to this lenient decoding, read as UTF-8.
\<close>

fun pct_units :: "nat list \<Rightarrow> nat option" where
  "pct_units (p # h # l # rest) =
     (if p = 37 \<and> h < 128 \<and> l < 128 then
        (case unhex (char_of h) of
           None \<Rightarrow> None
         | Some a \<Rightarrow> (case unhex (char_of l) of None \<Rightarrow> None | Some b \<Rightarrow> Some (16 * a + b)))
      else None)"
| "pct_units _ = None"

fun unescape_units :: "nat list \<Rightarrow> nat list" where
  "unescape_units [] = []"
| "unescape_units (u # us) =
     (case pct_units (u # us) of
        Some b \<Rightarrow> b # unescape_units (drop 2 us)
      | None \<Rightarrow> u mod 256 # unescape_units us)"

definition unescapeBuffer :: "string \<Rightarrow> string" where
  "unescapeBuffer s = map char_of (unescape_units (utf16_units s))"

definition qs_unescape :: "string \<Rightarrow> string" where
  "qs_unescape s =
     (case decodeURIComponent s of Inr r \<Rightarrow> r | Inl e \<Rightarrow> utf8_toString (unescapeBuffer s))"

fun has_escape :: "string \<Rightarrow> bool" where
  "has_escape [] = False"
| "has_escape (c # cs) = (pct_at (c # cs) \<noteq> None \<or> has_escape cs)"

text \<open>A key or a value: \<open>+\<close> is a space, and escapes are decoded when there is one.\<close>

definition qs_token :: "string \<Rightarrow> string" where
  "qs_token t =
     (let t' = map (\<lambda>c. if c = CHR ''+'' then CHR '' '' else c) t
      in if has_escape t' then qs_unescape t' else t')"

fun split_on :: "char \<Rightarrow> string \<Rightarrow> string list" where
  "split_on s [] = [[]]"
| "split_on s (c # cs) =
     (if c = s then [] # split_on s cs
      else (case split_on s cs of [] \<Rightarrow> [[c]] | x # xs \<Rightarrow> (c # x) # xs))"

text \<open>
  \<open>addKeyValue\<close>: a new key gets the string; a key seen before collects its values
  in an array.
\<close>

definition addKeyValue :: "(string \<times> jsval) list \<Rightarrow> string \<Rightarrow> string \<Rightarrow> (string \<times> jsval) list" where
  "addKeyValue obj key val =
     (case map_of obj key of
        None \<Rightarrow> obj @ [(key, JStr val)]
      | Some (JArr vs) \<Rightarrow> AList.update key (JArr (vs @ [JStr val])) obj
      | Some cur \<Rightarrow> AList.update key (JArr [cur, JStr val]) obj)"

text \<open>
  \<open>querystring.parse(s)\<close> with its defaults: pairs are separated by \<open>&\<close>, the first
  \<open>=\<close> of a pair ends its key, an empty pair is skipped, and at most 1000 pairs are
  read.
\<close>

definition qs_pair :: "(string \<times> jsval) list \<Rightarrow> string \<Rightarrow> (string \<times> jsval) list" where
  "qs_pair obj seg =
     (if seg = [] then obj
      else addKeyValue obj (qs_token (takeWhile (\<lambda>c. c \<noteq> CHR ''='') seg))
             (qs_token (drop 1 (dropWhile (\<lambda>c. c \<noteq> CHR ''='') seg))))"

definition qs_parse :: "string \<Rightarrow> (string \<times> jsval) list" where
  "qs_parse s = (if s = [] then [] else foldl qs_pair [] (take 1000 (split_on (CHR ''&'') s)))"

section \<open>Requests, configuration and what the module imports\<close>

text \<open>
  The request as the handler reads it: \<open>req.method\<close>, \<open>req.query\<close> (parsed by the
  framework, every value a string), \<open>req.cookies\<close> (absent when no cookie parser
  ran) and \<open>req.body\<close>.
\<close>

record request =
  req_method :: string
  req_query :: "(string \<times> string) list"
  req_cookies :: "(string \<times> string) list option"
  req_body :: jsval

record cookie_option =
  cookie_name :: string
  cookie_options :: "(string \<times> jsval) list"

text \<open>
  A provider object (\<open>src/providers/discourse.js\<close> spreads the site's options into
  it): \<open>authorize\<close> is the credentials provider's hook, absent for the others.
\<close>

record provider =
  provider_id :: string
  provider_type :: string
  provider_secret :: string
  provider_callbackUrl :: string
  provider_url :: string
  provider_authorize :: "(jsval \<Rightarrow> exn + jsval) option"

text \<open>What \<open>getAdapter\<close> resolves to; each function may reject.\<close>

record adapter_fns =
  getVerificationRequest :: "jsval \<Rightarrow> jsval \<Rightarrow> exn + jsval"
  deleteVerificationRequest :: "jsval \<Rightarrow> jsval \<Rightarrow> exn + jsval"
  getUserByEmail :: "jsval \<Rightarrow> exn + jsval"

text \<open>
  The \<open>options\<close> object.  A hook is a function of its arguments whose result is the
  value it resolves to (\<open>Inr\<close>) or the error it throws or rejects with (\<open>Inl\<close>).
  \<open>adapter\<close> is \<open>None\<close> when no adapter is configured, otherwise the outcome of
  \<open>adapter.getAdapter(options)\<close>.
\<close>

record options =
  providerName :: string
  providers :: "(string \<times> provider) list"
  adapter :: "(exn + adapter_fns) option"
  site :: string
  secret :: string
  baseUrl :: string
  cookies_sessionToken :: cookie_option
  cookies_nonceHash :: cookie_option
  callbackUrl :: "string option"
  pages_newUser :: "string option"
  jwt_secret :: jsval
  jwt_encode :: "jsval \<Rightarrow> exn + jsval"
  callbacks_signin :: "jsval \<Rightarrow> jsval \<Rightarrow> jsval \<Rightarrow> exn + jsval"
  callbacks_jwt :: "jsval list \<Rightarrow> exn + jsval"
  session_jwt :: bool
  session_maxAge :: int

text \<open>What \<open>callbackHandler\<close> resolves to, destructured as \<open>{ user, session, isNewUser }\<close>.\<close>

record signed_in =
  si_user :: jsval
  si_session :: jsval
  si_isNewUser :: jsval

text \<open>
  The modules the handler imports and the platform it runs on: HMAC-SHA256 of
  \<open>crypto\<close> (key, message, 256-bit digest), the repository's \<open>callbackHandler\<close>,
  \<open>oAuthCallback\<close> (the arguments it passes to its callback: error, profile,
  account, OAuthProfile; or the error it throws) and \<open>dispatchEvent\<close>, whose
  sources are not part of the files at hand, the clock behind \<open>new Date()\<close> and
  the ISO rendering of a time value a \<open>Date\<close> can hold.
\<close>

record modules =
  hmac :: "string \<Rightarrow> string \<Rightarrow> 256 word"
  callbackHandler :: "jsval \<Rightarrow> jsval \<Rightarrow> jsval \<Rightarrow> exn + signed_in"
  oAuthCallback :: "request \<Rightarrow> exn + (jsval \<times> jsval \<times> jsval \<times> jsval)"
  dispatchEvent :: "jsval \<Rightarrow> exn + jsval"
  now_ms :: int
  toISOString :: "int \<Rightarrow> string"

section \<open>Runs of the handler\<close>

text \<open>
  A run is the sequence of the handler's effects, in order, and how it ended: \<open>None\<close>
  when it returned, \<open>Some e\<close> when \<open>e\<close> was thrown and left it uncaught (the
  promise of the function that was running is rejected).  \<open>Hmac m\<close> records a digest
  computed over \<open>m\<close> and \<open>Decode s\<close> the decoding of the payload \<open>s\<close> (base64,
  UTF-8, query string).
\<close>

datatype hook =
    Signin | Jwt | JwtEncode | CallbackHandler | DispatchEvent | Authorize | OAuthCallback
  | GetAdapter | GetVerificationRequest | DeleteVerificationRequest | GetUserByEmail

datatype event =
    LogError string
  | LogDebug string
  | Status nat
  | SetHeader string string
  | End "string option"
  | CookieSet string jsval "(string \<times> jsval) list"
  | Call hook "jsval list"
  | Hmac string
  | Decode string
  | Done

type_synonym run = "event list \<times> exn option"

definition emit :: "event list \<Rightarrow> run \<Rightarrow> run" where
  "emit es r = (es @ fst r, snd r)"

definition throw :: "exn \<Rightarrow> run" where
  "throw e = ([], Some e)"

text \<open>\<open>res.status(302).setHeader('Location', loc); res.end(); return done()\<close>\<close>

definition redirect :: "string \<Rightarrow> run" where
  "redirect loc = ([Status 302, SetHeader ''Location'' loc, End None, Done], None)"

text \<open>\<open>await h(args)\<close>, then the rest of the function on the value it resolved to.\<close>

definition await :: "hook \<Rightarrow> jsval list \<Rightarrow> exn + 'a \<Rightarrow> ('a \<Rightarrow> run) \<Rightarrow> run" where
  "await h args r k = emit [Call h args] (case r of Inl e \<Rightarrow> throw e | Inr v \<Rightarrow> k v)"

text \<open>\<open>try { body } catch (error) { handler }\<close>\<close>

definition catch :: "run \<Rightarrow> (exn \<Rightarrow> run) \<Rightarrow> run" where
  "catch body handler = (case snd body of None \<Rightarrow> body | Some e \<Rightarrow> emit (fst body) (handler e))"

definition error_page :: "options \<Rightarrow> string \<Rightarrow> string" where
  "error_page opts code = baseUrl opts @ ''/error?error='' @ code"

text \<open>\<open>callbackUrl || site\<close>\<close>

definition callback_or_site :: "options \<Rightarrow> string" where
  "callback_or_site opts =
     (case callbackUrl opts of None \<Rightarrow> site opts | Some u \<Rightarrow> if u = [] then site opts else u)"

text \<open>
  \<open>cookieExpires = new Date(); cookieExpires.setTime(cookieExpires.getTime() +
  sessionMaxAge * 1000); cookieExpires.toISOString()\<close> (lines 129-133, 193-197,
  286-290 and 377-381): a \<open>Date\<close> holds a time value of at most 8.64e15 milliseconds
  either side of the epoch; beyond that the date is invalid and \<open>toISOString\<close>
  throws \<open>RangeError\<close>.
\<close>

definition cookie_expires :: "modules \<Rightarrow> options \<Rightarrow> exn + string" where
  "cookie_expires w opts =
     (let t = now_ms w + session_maxAge opts * 1000 in
      if - 8640000000000000 \<le> t \<and> t \<le> 8640000000000000 then Inr (toISOString w t)
      else Inl RangeError)"

section \<open>Issuing the session\<close>

text \<open>
  The same statements follow the \<open>callbackHandler\<close> call in the discourse, oauth and
  email branches (lines 122-137, 186-201 and 279-294): with JSON Web Tokens the
  \<open>jwt\<close> hook and \<open>jwt.encode\<close> run and the token is the cookie's value; otherwise
  the cookie carries \<open>session.sessionToken\<close>.  \<open>extra\<close> is what the branch passes
  to the \<open>jwt\<close> hook after the payload (the OAuth profile in the oauth branch).
\<close>

definition issue_session :: "modules \<Rightarrow> options \<Rightarrow> signed_in \<Rightarrow> jsval \<Rightarrow> jsval list \<Rightarrow> run \<Rightarrow> run" where
  "issue_session w opts h account extra rest =
     (if session_jwt opts then
        (let defaultJwtPayload =
               JObj [(''user'', si_user h), (''account'', account), (''isNewUser'', si_isNewUser h)]
         in await Jwt (defaultJwtPayload # extra) (callbacks_jwt opts (defaultJwtPayload # extra))
              (\<lambda>jwtPayload.
                 let arg = JObj [(''secret'', jwt_secret opts), (''token'', jwtPayload),
                                 (''maxAge'', JNum (session_maxAge opts))]
                 in await JwtEncode [arg] (jwt_encode opts arg)
                      (\<lambda>newEncodedJwt.
                         case cookie_expires w opts of
                           Inl e \<Rightarrow> throw e
                         | Inr expires \<Rightarrow>
                             emit [CookieSet (cookie_name (cookies_sessionToken opts)) newEncodedJwt
                                     (spread [(''expires'', JStr expires)]
                                        (cookie_options (cookies_sessionToken opts)))]
                               rest)))
      else
        (case js_get (si_session h) ''sessionToken'' of
           Inl e \<Rightarrow> throw e
         | Inr tok \<Rightarrow>
             (case js_get (si_session h) ''expires'' of
                Inl e \<Rightarrow> throw e
              | Inr ex \<Rightarrow>
                  emit [CookieSet (cookie_name (cookies_sessionToken opts)) tok
                          (spread [(''expires'', js_or ex JNull)]
                             (cookie_options (cookies_sessionToken opts)))]
                    rest)))"

text \<open>\<open>await dispatchEvent(events.signin, { user, account, isNewUser })\<close>\<close>

definition dispatch_signin :: "modules \<Rightarrow> signed_in \<Rightarrow> jsval \<Rightarrow> run \<Rightarrow> run" where
  "dispatch_signin w h account rest =
     (let message = JObj [(''user'', si_user h), (''account'', account), (''isNewUser'', si_isNewUser h)]
      in await DispatchEvent [message] (dispatchEvent w message) (\<lambda>_. rest))"

text \<open>
  The end of the oauth and email branches (lines 205-217 and 298-315): a first login
  goes to the new-user page when one is configured.
\<close>

definition new_user_or_callback :: "options \<Rightarrow> signed_in \<Rightarrow> run" where
  "new_user_or_callback opts h =
     (if truthy (si_isNewUser h) \<and> truthy (of_opt (pages_newUser opts))
      then redirect (case pages_newUser opts of None \<Rightarrow> [] | Some u \<Rightarrow> u)
      else redirect (callback_or_site opts))"

section \<open>The discourse branch (lines 36-145)\<close>

text \<open>
  Lines 109-144: the \<open>signin\<close> hook decides, \<open>callbackHandler\<close> signs the user in,
  the session is issued, the event is dispatched and the browser is sent to
  \<open>callbackUrl || site\<close>.  No statement of this branch is inside a \<open>try\<close>.
\<close>

definition discourse_signin :: "modules \<Rightarrow> options \<Rightarrow> jsval \<Rightarrow> jsval \<Rightarrow> jsval \<Rightarrow> run" where
  "discourse_signin w opts sessionToken profile account =
     await Signin [profile, account, JNull] (callbacks_signin opts profile account JNull)
       (\<lambda>signinCallbackResponse.
          if signinCallbackResponse = JBool False then redirect (error_page opts ''AccessDenied'')
          else
            await CallbackHandler [sessionToken, profile, account]
              (callbackHandler w sessionToken profile account)
              (\<lambda>h. issue_session w opts h account []
                      (dispatch_signin w h account (redirect (callback_or_site opts)))))"

text \<open>Lines 85-107: the fields the payload must carry, and the profile built from them.\<close>

definition discourse_profile :: "(string \<times> jsval) list \<Rightarrow> jsval" where
  "discourse_profile ret =
     JObj [(''email'', obj_get ret ''email''),
           (''name'', js_or (obj_get ret ''name'') (obj_get ret ''username'')),
           (''image'', js_or (obj_get ret ''avatar_url'') (JStr [])),
           (''username'', obj_get ret ''username''),
           (''id'', obj_get ret ''external_id''),
           (''admin'', JBool (obj_get ret ''admin'' = JStr ''true'')),
           (''moderator'', JBool (obj_get ret ''moderator'' = JStr ''true''))]"

definition discourse_account :: "provider \<Rightarrow> (string \<times> jsval) list \<Rightarrow> jsval" where
  "discourse_account p ret =
     JObj [(''id'', obj_get ret ''external_id''), (''type'', JStr (provider_type p)),
           (''provider'', JStr (provider_id p))]"

definition discourse_fields :: "modules \<Rightarrow> options \<Rightarrow> provider \<Rightarrow> jsval \<Rightarrow> (string \<times> jsval) list \<Rightarrow> run" where
  "discourse_fields w opts p sessionToken ret =
     (if \<not> truthy (obj_get ret ''external_id'') \<or> \<not> truthy (obj_get ret ''email'') \<or>
         \<not> truthy (obj_get ret ''username'')
      then emit [LogError ''CALLBACK_OAUTH_ERROR''] (redirect (error_page opts ''oAuthCallback''))
      else discourse_signin w opts sessionToken (discourse_profile ret) (discourse_account p ret))"

text \<open>
  Lines 68-83.  \<open>hmac.update(ret.nonce)\<close> throws a \<open>TypeError\<close> unless \<open>ret.nonce\<close>
  is a string (it is \<open>undefined\<close> when the payload has no \<open>nonce\<close>, an array when it
  has several), and \<open>req.cookies[...]\<close> throws one when \<open>req.cookies\<close> is absent;
  both come before the cookie is removed.  In \<open>{maxAge: -1, ...options}\<close> the
  configured options come last.
\<close>

definition discourse_nonce :: "modules \<Rightarrow> options \<Rightarrow> provider \<Rightarrow> request \<Rightarrow> jsval \<Rightarrow> (string \<times> jsval) list \<Rightarrow> run" where
  "discourse_nonce w opts p req sessionToken ret =
     (case obj_get ret ''nonce'' of
        JStr nonce \<Rightarrow>
          emit [Hmac nonce]
            (let nonceHash = hex256 (hmac w (provider_secret p) nonce) in
             case req_cookies req of
               None \<Rightarrow> throw TypeError
             | Some cs \<Rightarrow>
                 (let cookieNonceHash = map_of cs (cookie_name (cookies_nonceHash opts)) in
                  emit [CookieSet (cookie_name (cookies_nonceHash opts)) (JStr [])
                          (spread [(''maxAge'', JNum (- 1))] (cookie_options (cookies_nonceHash opts)))]
                    (if cookieNonceHash \<noteq> Some nonceHash \<or> nonceHash = [] \<or>
                        \<not> truthy (of_opt cookieNonceHash)
                     then emit [LogError ''CALLBACK_OAUTH_ERROR'']
                            (redirect (error_page opts ''oAuthCallback''))
                     else discourse_fields w opts p sessionToken ret)))
      | _ \<Rightarrow> throw TypeError)"

text \<open>
  Lines 48-66: the digest is computed over \<open>decodeURIComponent(sso)\<close> (which throws
  \<open>URIError\<close> on a malformed escape) and compared with \<open>sig\<close> (both are strings,
  so \<open>!=\<close> is inequality of strings); only then is \<open>sso\<close> decoded.
\<close>

definition sso_decode :: "string \<Rightarrow> (string \<times> jsval) list" where
  "sso_decode sso = qs_parse (utf8_toString (base64_dec sso))"

definition discourse_verify :: "modules \<Rightarrow> options \<Rightarrow> provider \<Rightarrow> request \<Rightarrow> jsval \<Rightarrow> string \<Rightarrow> string \<Rightarrow> run" where
  "discourse_verify w opts p req sessionToken sso sig =
     (case decodeURIComponent sso of
        Inl e \<Rightarrow> throw e
      | Inr decoded_sso \<Rightarrow>
          emit [Hmac decoded_sso]
            (if sig \<noteq> hex256 (hmac w (provider_secret p) decoded_sso)
             then emit [LogError ''CALLBACK_OAUTH_ERROR'']
                    (redirect (error_page opts ''oAuthCallback''))
             else emit [Decode sso] (discourse_nonce w opts p req sessionToken (sso_decode sso))))"

text \<open>Lines 38-46: both query parameters must be present and not empty.\<close>

definition discourse_callback :: "modules \<Rightarrow> options \<Rightarrow> provider \<Rightarrow> request \<Rightarrow> jsval \<Rightarrow> run" where
  "discourse_callback w opts p req sessionToken =
     (let sso = map_of (req_query req) ''sso''; sig = map_of (req_query req) ''sig'' in
      if \<not> truthy (of_opt sso) \<or> \<not> truthy (of_opt sig)
      then emit [LogError ''CALLBACK_OAUTH_ERROR''] (redirect (error_page opts ''oAuthCallback''))
      else discourse_verify w opts p req sessionToken
             (case sso of None \<Rightarrow> [] | Some s \<Rightarrow> s) (case sig of None \<Rightarrow> [] | Some s \<Rightarrow> s))"

section \<open>The oauth branch (lines 146-237)\<close>

text \<open>The body of the inner \<open>try\<close> (lines 150-217).\<close>

definition oauth_body :: "modules \<Rightarrow> options \<Rightarrow> jsval \<Rightarrow> jsval \<times> jsval \<times> jsval \<times> jsval \<Rightarrow> run" where
  "oauth_body w opts sessionToken r =
     (case r of (error, profile, account, OAuthProfile) \<Rightarrow>
        if truthy error
        then emit [LogError ''CALLBACK_OAUTH_ERROR''] (redirect (error_page opts ''oAuthCallback''))
        else
          emit [LogDebug ''OAUTH_CALLBACK_RESPONSE'']
            (if \<not> truthy profile then redirect (baseUrl opts @ ''/signin'')
             else
               await Signin [profile, account, OAuthProfile]
                 (callbacks_signin opts profile account OAuthProfile)
                 (\<lambda>signinCallbackResponse.
                    if signinCallbackResponse = JBool False
                    then redirect (error_page opts ''AccessDenied'')
                    else
                      await CallbackHandler [sessionToken, profile, account]
                        (callbackHandler w sessionToken profile account)
                        (\<lambda>h. issue_session w opts h account [OAuthProfile]
                                (dispatch_signin w h account (new_user_or_callback opts h))))))"

text \<open>
  The inner \<open>catch\<close> (lines 218-230).  It starts by reading \<open>error.name\<close>, which
  itself throws when what was caught is \<open>undefined\<close> or \<open>null\<close>.
\<close>

definition oauth_catch :: "options \<Rightarrow> exn \<Rightarrow> run" where
  "oauth_catch opts error =
     (case exn_name error of
        Inl e \<Rightarrow> throw e
      | Inr name \<Rightarrow>
          if name = JStr ''AccountNotLinkedError''
          then redirect (error_page opts ''OAuthAccountNotLinked'')
          else if name = JStr ''CreateUserError''
          then redirect (error_page opts ''OAuthCreateAccount'')
          else emit [LogError ''OAUTH_CALLBACK_HANDLER_ERROR'']
                 (redirect (error_page opts ''Callback'')))"

definition oauth_callback :: "modules \<Rightarrow> options \<Rightarrow> request \<Rightarrow> jsval \<Rightarrow> run" where
  "oauth_callback w opts req sessionToken =
     emit [Call OAuthCallback []]
       (case oAuthCallback w req of
          Inl error \<Rightarrow>
            emit [LogError ''OAUTH_CALLBACK_ERROR''] (redirect (error_page opts ''Callback''))
        | Inr r \<Rightarrow> catch (oauth_body w opts sessionToken r) (oauth_catch opts))"

section \<open>The email branch (lines 238-325)\<close>

definition email_body :: "modules \<Rightarrow> options \<Rightarrow> provider \<Rightarrow> request \<Rightarrow> jsval \<Rightarrow> run" where
  "email_body w opts p req sessionToken =
     (case adapter opts of
        None \<Rightarrow>
          emit [LogError ''EMAIL_REQUIRES_ADAPTER_ERROR''] (redirect (error_page opts ''Configuration''))
      | Some getAdapter \<Rightarrow>
          await GetAdapter [] getAdapter
            (\<lambda>fns.
               let verificationToken = of_opt (map_of (req_query req) ''token'');
                   email = of_opt (map_of (req_query req) ''email'')
               in await GetVerificationRequest [email, verificationToken]
                    (getVerificationRequest fns email verificationToken)
                    (\<lambda>invite.
                       if \<not> truthy invite then redirect (error_page opts ''Verification'')
                       else
                         await DeleteVerificationRequest [email, verificationToken]
                           (deleteVerificationRequest fns email verificationToken)
                           (\<lambda>_.
                              await GetUserByEmail [email] (getUserByEmail fns email)
                                (\<lambda>existing.
                                   let profile = js_or existing (JObj [(''email'', email)]);
                                       account = JObj [(''id'', JStr (provider_id p)),
                                                       (''type'', JStr ''email''),
                                                       (''providerAccountId'', email)]
                                   in await Signin [profile, account, JNull]
                                        (callbacks_signin opts profile account JNull)
                                        (\<lambda>signinCallbackResponse.
                                           if signinCallbackResponse = JBool False
                                           then redirect (error_page opts ''AccessDenied'')
                                           else
                                             await CallbackHandler [sessionToken, profile, account]
                                               (callbackHandler w sessionToken profile account)
                                               (\<lambda>h. issue_session w opts h account []
                                                       (dispatch_signin w h account
                                                          (new_user_or_callback opts h)))))))))"

text \<open>
  The \<open>catch\<close> (lines 316-325): \<open>error.name\<close> is read first (and throws when what
  was caught is \<open>undefined\<close> or \<open>null\<close>); the header is set before the error is
  logged.
\<close>

definition email_catch :: "options \<Rightarrow> exn \<Rightarrow> run" where
  "email_catch opts error =
     (case exn_name error of
        Inl e \<Rightarrow> throw e
      | Inr name \<Rightarrow>
          if name = JStr ''CreateUserError''
          then redirect (error_page opts ''EmailCreateAccount'')
          else ([Status 302, SetHeader ''Location'' (error_page opts ''Callback''),
                 LogError ''CALLBACK_EMAIL_ERROR'', End None, Done], None))"

definition email_callback :: "modules \<Rightarrow> options \<Rightarrow> provider \<Rightarrow> request \<Rightarrow> jsval \<Rightarrow> run" where
  "email_callback w opts p req sessionToken =
     catch (email_body w opts p req sessionToken) (email_catch opts)"

section \<open>The credentials branch (lines 326-393)\<close>

text \<open>
  Only the call of \<open>authorize\<close> is inside a \<open>try\<close> (lines 345-351).  No
  \<open>callbackHandler\<close> runs here: the user is what \<open>authorize\<close> returned.
\<close>

definition credentials_signin :: "modules \<Rightarrow> options \<Rightarrow> provider \<Rightarrow> jsval \<Rightarrow> jsval \<Rightarrow> run" where
  "credentials_signin w opts p credentials user =
     (let account = JObj [(''id'', JStr (provider_id p)), (''type'', JStr ''credentials'')] in
      if \<not> truthy user
      then redirect (error_page opts ''CredentialsSignin'' @ ''&provider='' @
                     encodeURIComponent (provider_id p))
      else
        await Signin [user, account, credentials] (callbacks_signin opts user account credentials)
          (\<lambda>signinCallbackResponse.
             if signinCallbackResponse = JBool False then redirect (error_page opts ''AccessDenied'')
             else
               (let defaultJwtPayload = JObj [(''user'', user), (''account'', account)] in
                await Jwt [defaultJwtPayload] (callbacks_jwt opts [defaultJwtPayload])
                  (\<lambda>jwtPayload.
                     let arg = JObj [(''secret'', jwt_secret opts), (''token'', jwtPayload),
                                     (''maxAge'', JNum (session_maxAge opts))]
                     in await JwtEncode [arg] (jwt_encode opts arg)
                          (\<lambda>newEncodedJwt.
                             case cookie_expires w opts of
                               Inl e \<Rightarrow> throw e
                             | Inr expires \<Rightarrow>
                                 emit [CookieSet (cookie_name (cookies_sessionToken opts))
                                         newEncodedJwt
                                         (spread [(''expires'', JStr expires)]
                                            (cookie_options (cookies_sessionToken opts)))]
                                   (let message = JObj [(''user'', user), (''account'', account)] in
                                    await DispatchEvent [message] (dispatchEvent w message)
                                      (\<lambda>_. redirect (callback_or_site opts))))))))"

definition credentials_callback :: "modules \<Rightarrow> options \<Rightarrow> provider \<Rightarrow> request \<Rightarrow> run" where
  "credentials_callback w opts p req =
     (if \<not> session_jwt opts
      then emit [LogError ''CALLBACK_CREDENTIALS_JWT_ERROR''] (redirect (error_page opts ''Configuration''))
      else
        (case provider_authorize p of
           None \<Rightarrow>
             emit [LogError ''CALLBACK_CREDENTIALS_HANDLER_ERROR'']
               (redirect (error_page opts ''Configuration''))
         | Some authorize \<Rightarrow>
             emit [Call Authorize [req_body req]]
               (case authorize (req_body req) of
                  Inl error \<Rightarrow> redirect (error_page opts ''Configuration'')
                | Inr user \<Rightarrow> credentials_signin w opts p (req_body req) user)))"

section \<open>The handler (lines 13-398)\<close>

text \<open>
  \<open>const { type } = provider\<close> throws when \<open>providers[providerName]\<close> is undefined.
  \<open>providers\<close> is an ordinary object: a name that is no provider's but that every
  object inherits (\<open>constructor\<close>, \<open>toString\<close>, ...) reads a value that has no
  \<open>type\<close>.  The last branch (lines 394-397) answers every other type, a missing
  type, and a credentials request that is not a POST.
\<close>

definition inherited_property :: "string \<Rightarrow> bool" where
  "inherited_property k =
     (k \<in> set [''constructor'', ''hasOwnProperty'', ''isPrototypeOf'', ''propertyIsEnumerable'',
                ''toLocaleString'', ''toString'', ''valueOf'', ''__proto__'',
                ''__defineGetter__'', ''__defineSetter__'', ''__lookupGetter__'',
                ''__lookupSetter__''])"

definition unsupported :: "string \<Rightarrow> run" where
  "unsupported type =
     ([Status 500, End (Some (''Error: Callback for provider type '' @ type @ '' not supported'')),
       Done], None)"

definition callback :: "modules \<Rightarrow> options \<Rightarrow> request \<Rightarrow> run" where
  "callback w opts req =
     (case map_of (providers opts) (providerName opts) of
        None \<Rightarrow>
          if inherited_property (providerName opts) then unsupported ''undefined''
          else throw TypeError
      | Some p \<Rightarrow>
          (let sessionToken =
                 (case req_cookies req of
                    None \<Rightarrow> JNull
                  | Some cs \<Rightarrow> of_opt (map_of cs (cookie_name (cookies_sessionToken opts))))
           in if provider_type p = ''discourse'' then discourse_callback w opts p req sessionToken
              else if provider_type p = ''oauth'' then oauth_callback w opts req sessionToken
              else if provider_type p = ''email'' then email_callback w opts p req sessionToken
              else if provider_type p = ''credentials'' \<and> req_method req = ''POST''
              then credentials_callback w opts p req
              else unsupported (provider_type p)))"

section \<open>Starting a Discourse sign-in (\<open>getAuthorisationUrl\<close>)\<close>

text \<open>Lines 15-21: the payload, its base64 form and its signature.\<close>

definition sso_payload :: "string \<Rightarrow> string \<Rightarrow> string" where
  "sso_payload nonce return_url = ''nonce='' @ nonce @ ''&return_sso_url='' @ return_url"

definition payload_b64 :: "string \<Rightarrow> string \<Rightarrow> string" where
  "payload_b64 nonce return_url = base64_enc (sso_payload nonce return_url)"

definition hex_sig :: "(string \<Rightarrow> string \<Rightarrow> 256 word) \<Rightarrow> string \<Rightarrow> string \<Rightarrow> string \<Rightarrow> string" where
  "hex_sig H key nonce return_url = hex256 (H key (payload_b64 nonce return_url))"

text \<open>
  The function: \<open>rnd\<close> is what \<open>crypto.randomBytes(16, ...)\<close> hands to its callback,
  an error or the buffer.  On an error the buffer is undefined and
  \<open>buf.toString('hex')\<close> throws after the error is logged.  Otherwise the result is
  what \<open>callback\<close> receives after \<open>err\<close>: the nonce hash and the redirect URL.
\<close>

definition getAuthorisationUrl ::
  "(string \<Rightarrow> string \<Rightarrow> 256 word) \<Rightarrow> provider \<Rightarrow> exn + 8 word list \<Rightarrow> event list \<times> (exn + string \<times> string)" where
  "getAuthorisationUrl H p rnd =
     (case rnd of
        Inl err \<Rightarrow> ([LogError ''GET_AUTHORISATION_URL_ERROR''], Inl TypeError)
      | Inr buf \<Rightarrow>
          (let nonce = hex_of_bytes buf;
               url_redirect = provider_url p @ ''/session/sso_provider?sso='' @
                              encodeURIComponent (payload_b64 nonce (provider_callbackUrl p)) @
                              ''&sig='' @ hex_sig H (provider_secret p) nonce (provider_callbackUrl p);
               nonceHash = hex256 (H (provider_secret p) nonce)
           in ([], Inr (nonceHash, url_redirect))))"

section \<open>Reading a run\<close>

fun is_cookie :: "event \<Rightarrow> bool" where
  "is_cookie (CookieSet n v os) = True"
| "is_cookie e = False"

fun is_call :: "event \<Rightarrow> bool" where
  "is_call (Call h args) = True"
| "is_call e = False"

fun is_decode :: "event \<Rightarrow> bool" where
  "is_decode (Decode s) = True"
| "is_decode e = False"

text \<open>What the browser receives: status, headers, cookies and body, in order.\<close>

fun outward :: "event \<Rightarrow> bool" where
  "outward (Status n) = True"
| "outward (SetHeader k v) = True"
| "outward (CookieSet n v os) = True"
| "outward (End b) = True"
| "outward e = False"

definition response :: "run \<Rightarrow> event list" where
  "response r = filter outward (fst r)"

definition no_decode :: "run \<Rightarrow> bool" where
  "no_decode r = (\<not> list_ex is_decode (fst r))"

text \<open>The values of the \<open>Location\<close> headers of a run.\<close>

definition locations :: "run \<Rightarrow> string list" where
  "locations r =
     List.map_filter
       (\<lambda>e. case e of SetHeader k v \<Rightarrow> if k = ''Location'' then Some v else None | _ \<Rightarrow> None)
       (fst r)"

section \<open>A configuration for the examples\<close>

text \<open>
  A stand-in for HMAC-SHA256 in the examples; the theorems below hold for every
  function in its place.
\<close>

definition example_hmac :: "string \<Rightarrow> string \<Rightarrow> 256 word" where
  "example_hmac key msg = word_of_nat (foldl (\<lambda>h c. 31 * h + of_char c) 7 (key @ CHR ''|'' # msg))"

definition example_cookie_options :: "(string \<times> jsval) list" where
  "example_cookie_options =
     [(''httpOnly'', JBool True), (''sameSite'', JStr ''lax''), (''path'', JStr ''/''),
      (''secure'', JBool True)]"

definition example_discourse :: provider where
  "example_discourse =
     \<lparr>provider_id = ''discourse'', provider_type = ''discourse'', provider_secret = ''s3cret'',
      provider_callbackUrl = ''https://app/x'', provider_url = ''https://forum.example'',
      provider_authorize = None\<rparr>"

definition example_authorize :: "jsval \<Rightarrow> exn + jsval" where
  "example_authorize credentials =
     (if credentials = JObj [(''password'', JStr ''boom'')] then Inl (Error ''Error'')
      else if credentials = JObj [(''password'', JStr ''hunter2'')]
      then Inr (JObj [(''id'', JNum 1), (''name'', JStr ''ann'')])
      else Inr JNull)"

definition example_providers :: "(string \<times> provider) list" where
  "example_providers =
     [(''discourse'', example_discourse),
      (''github'', example_discourse\<lparr>provider_id := ''github'', provider_type := ''oauth''\<rparr>),
      (''email'', example_discourse\<lparr>provider_id := ''email'', provider_type := ''email''\<rparr>),
      (''credentials'',
       example_discourse\<lparr>provider_id := ''my login'', provider_type := ''credentials'',
                          provider_authorize := Some example_authorize\<rparr>),
      (''saml'', example_discourse\<lparr>provider_id := ''saml'', provider_type := ''saml''\<rparr>)]"

definition example_adapter :: adapter_fns where
  "example_adapter =
     \<lparr>getVerificationRequest =
        (\<lambda>email token. if token = JStr ''tok'' then Inr (JObj [(''identifier'', email)]) else Inr JNull),
      deleteVerificationRequest = (\<lambda>email token. Inr JUndefined),
      getUserByEmail = (\<lambda>email. Inr JNull)\<rparr>"

definition example_options :: options where
  "example_options =
     \<lparr>providerName = ''discourse'', providers = example_providers,
      adapter = Some (Inr example_adapter), site = ''https://app'', secret = ''app-secret'',
      baseUrl = ''https://app/api/auth'',
      cookies_sessionToken =
        \<lparr>cookie_name = ''next-auth.session-token'', cookie_options = example_cookie_options\<rparr>,
      cookies_nonceHash =
        \<lparr>cookie_name = ''next-auth.nonce-hash'', cookie_options = example_cookie_options\<rparr>,
      callbackUrl = Some ''https://app/x'', pages_newUser = Some ''https://app/welcome'',
      jwt_secret = JStr ''jwt-secret'', jwt_encode = (\<lambda>arg. Inr (JStr ''encoded.jwt'')),
      callbacks_signin = (\<lambda>profile account proof. Inr (JBool True)),
      callbacks_jwt = (\<lambda>args. Inr (case args of [] \<Rightarrow> JUndefined | payload # _ \<Rightarrow> payload)),
      session_jwt = True, session_maxAge = 2592000\<rparr>"

definition example_modules :: modules where
  "example_modules =
     \<lparr>hmac = example_hmac,
      callbackHandler =
        (\<lambda>sessionToken profile account.
           Inr \<lparr>si_user = profile,
                si_session = JObj [(''sessionToken'', JStr ''s1''), (''expires'', JNull)],
                si_isNewUser = JBool True\<rparr>),
      oAuthCallback =
        (\<lambda>req. Inr (JNull, JObj [(''id'', JNum 7), (''name'', JStr ''ann'')],
                    JObj [(''provider'', JStr ''github'')], JObj [(''login'', JStr ''ann'')])),
      dispatchEvent = (\<lambda>message. Inr JUndefined),
      now_ms = 0,
      toISOString = (\<lambda>t. ''1970-01-31T00:00:00.000Z'')\<rparr>"

text \<open>
  Requests.  The payload of \<open>example_sso_request\<close> is the base64 form of
  \<open>nonce=abc123&external_id=42&email=a%40b.com&username=ann\<close>, signed with the
  secret \<open>s3cret\<close>, and the cookie binds the nonce \<open>abc123\<close>; the payload of
  \<open>example_no_nonce_request\<close> is the signed base64 form of
  \<open>external_id=42&email=a%40b.com&username=ann\<close>.  The digests are left as
  terms: no example depends on their digits.
\<close>

definition example_sso :: string where
  "example_sso = ''bm9uY2U9YWJjMTIzJmV4dGVybmFsX2lkPTQyJmVtYWlsPWElNDBiLmNvbSZ1c2VybmFtZT1hbm4=''"

definition example_sig :: string where
  "example_sig = hex256 (example_hmac ''s3cret'' example_sso)"

definition example_nonce_hash :: string where
  "example_nonce_hash = hex256 (example_hmac ''s3cret'' ''abc123'')"

definition example_sso_request :: request where
  "example_sso_request =
     \<lparr>req_method = ''GET'', req_query = [(''sso'', example_sso), (''sig'', example_sig)],
      req_cookies = Some [(''next-auth.nonce-hash'', example_nonce_hash)], req_body = JUndefined\<rparr>"

definition example_no_nonce_sso :: string where
  "example_no_nonce_sso = ''ZXh0ZXJuYWxfaWQ9NDImZW1haWw9YSU0MGIuY29tJnVzZXJuYW1lPWFubg==''"

definition example_no_nonce_request :: request where
  "example_no_nonce_request =
     example_sso_request
       \<lparr>req_query :=
          [(''sso'', example_no_nonce_sso),
           (''sig'', hex256 (example_hmac ''s3cret'' example_no_nonce_sso))]\<rparr>"

text \<open>One character of a signature replaced by another one.\<close>

definition corrupt :: "string \<Rightarrow> string" where
  "corrupt s = (case s of [] \<Rightarrow> [] | c # cs \<Rightarrow> (if c = CHR ''0'' then CHR ''1'' else CHR ''0'') # cs)"

definition example_bad_sig_request :: request where
  "example_bad_sig_request =
     example_sso_request\<lparr>req_query := [(''sso'', example_sso), (''sig'', corrupt example_sig)]\<rparr>"

definition example_stale_nonce_request :: request where
  "example_stale_nonce_request =
     example_sso_request
       \<lparr>req_cookies := Some [(''next-auth.nonce-hash'', ''a-stale-binding'')]\<rparr>"

definition example_initiation_request :: request where
  "example_initiation_request =
     \<lparr>req_method = ''GET'',
      req_query = [(''sso'', payload_b64 ''abc123'' ''https://app/x''),
                   (''sig'', hex_sig example_hmac ''s3cret'' ''abc123'' ''https://app/x'')],
      req_cookies = Some [(''next-auth.nonce-hash'', example_nonce_hash)], req_body = JUndefined\<rparr>"

definition example_email_request :: request where
  "example_email_request =
     \<lparr>req_method = ''GET'', req_query = [(''email'', ''a@b.com''), (''token'', ''tok'')],
      req_cookies = Some [], req_body = JUndefined\<rparr>"

definition example_credentials_request :: request where
  "example_credentials_request =
     \<lparr>req_method = ''POST'', req_query = [], req_cookies = Some [],
      req_body = JObj [(''password'', JStr ''hunter2'')]\<rparr>"

text \<open>Variations of the configuration and of the requests.\<close>

definition example_credentials_options :: options where
  "example_credentials_options = example_options\<lparr>providerName := ''credentials''\<rparr>"

definition example_credentials_provider :: provider where
  "example_credentials_provider =
     example_discourse\<lparr>provider_id := ''my login'', provider_type := ''credentials'',
                        provider_authorize := Some example_authorize\<rparr>"

definition example_boom_request :: request where
  "example_boom_request = example_credentials_request\<lparr>req_body := JObj [(''password'', JStr ''boom'')]\<rparr>"

definition example_wrong_password_request :: request where
  "example_wrong_password_request =
     example_credentials_request\<lparr>req_body := JObj [(''password'', JStr ''guess'')]\<rparr>"

definition example_failing_signin_options :: options where
  "example_failing_signin_options =
     example_credentials_options
       \<lparr>callbacks_signin := (\<lambda>profile account proof. Inl (Error ''DatabaseError''))\<rparr>"

definition example_bad_token_request :: request where
  "example_bad_token_request =
     example_email_request\<lparr>req_query := [(''email'', ''a@b.com''), (''token'', ''expired'')]\<rparr>"

definition example_email_options :: options where
  "example_email_options = example_options\<lparr>providerName := ''email''\<rparr>"

definition example_email_provider :: provider where
  "example_email_provider = example_discourse\<lparr>provider_id := ''email'', provider_type := ''email''\<rparr>"

definition example_github_options :: options where
  "example_github_options = example_options\<lparr>providerName := ''github''\<rparr>"

definition example_undefined_signin_options :: options where
  "example_undefined_signin_options =
     example_options\<lparr>callbacks_signin := (\<lambda>profile account proof. Inr JUndefined)\<rparr>"

definition example_denying_options :: options where
  "example_denying_options =
     example_options\<lparr>callbacks_signin := (\<lambda>profile account proof. Inr (JBool False))\<rparr>"

text \<open>
  A \<open>signin\<close> hook that returns \<open>null\<close> to a credentials sign-in, one that returns
  \<open>0\<close> to an oauth sign-in with sessions kept in the database, and one that returns
  the empty string to an email sign-in.
\<close>

definition example_null_signin_options :: options where
  "example_null_signin_options =
     example_credentials_options\<lparr>callbacks_signin := (\<lambda>profile account proof. Inr JNull)\<rparr>"

definition example_zero_signin_options :: options where
  "example_zero_signin_options =
     example_github_options
       \<lparr>callbacks_signin := (\<lambda>profile account proof. Inr (JNum 0)), session_jwt := False\<rparr>"

definition example_empty_signin_options :: options where
  "example_empty_signin_options =
     example_email_options\<lparr>callbacks_signin := (\<lambda>profile account proof. Inr (JStr []))\<rparr>"

section \<open>Unsupported provider types\<close>

text \<open>
  C10.  A callback whose provider type is \<open>credentials\<close> while the request is not a
  POST, or whose provider type is none of discourse, oauth, email and credentials,
  is answered with status 500 and the plain text
  \<open>Error: Callback for provider type <type> not supported\<close>: the run has no other
  effect, so no redirect, no cookie and no hook.
\<close>

theorem unsupported_type_500:
  assumes "map_of (providers opts) (providerName opts) = Some p"
    and "(provider_type p = ''credentials'' \<and> req_method req \<noteq> ''POST'') \<or>
         provider_type p \<notin> {''discourse'', ''oauth'', ''email'', ''credentials''}"
  shows "callback w opts req =
           ([Status 500,
             End (Some (''Error: Callback for provider type '' @ provider_type p @ '' not supported'')),
             Done], None) \<and>
         Status 302 \<notin> set (fst (callback w opts req)) \<and>
         \<not> list_ex is_cookie (fst (callback w opts req)) \<and>
         \<not> list_ex is_call (fst (callback w opts req))"
  using assms by (auto simp: callback_def unsupported_def)

theorem unsupported_type_500_witness:
  "map_of (providers (example_options\<lparr>providerName := ''credentials''\<rparr>))
     (providerName (example_options\<lparr>providerName := ''credentials''\<rparr>)) =
     Some (example_discourse\<lparr>provider_id := ''my login'', provider_type := ''credentials'',
                             provider_authorize := Some example_authorize\<rparr>) \<and>
   req_method example_email_request \<noteq> ''POST'' \<and>
   callback example_modules (example_options\<lparr>providerName := ''credentials''\<rparr>) example_email_request =
     ([Status 500, End (Some ''Error: Callback for provider type credentials not supported''), Done],
      None)"
proof -
  let ?p = "example_discourse\<lparr>provider_id := ''my login'', provider_type := ''credentials'',
                              provider_authorize := Some example_authorize\<rparr>"
  let ?opts = "example_options\<lparr>providerName := ''credentials''\<rparr>"
  have h1: "map_of (providers ?opts) (providerName ?opts) = Some ?p"
    by (simp add: example_options_def example_providers_def)
  have h2: "req_method example_email_request \<noteq> ''POST''"
    by (simp add: example_email_request_def)
  have t: "provider_type ?p = ''credentials''"
    by simp
  from unsupported_type_500 [of ?opts ?p example_email_request example_modules, OF h1] h1 h2 t
  show ?thesis by simp
qed

section \<open>Credentials: a failing \<open>authorize\<close> is not a wrong password\<close>

text \<open>
  C5.  In a credentials callback that reaches \<open>authorize\<close> (a POST, with JSON Web
  Token sessions and a provider that defines the hook): when \<open>authorize\<close> throws or
  rejects, the run is a redirect to the Configuration error page and nothing else;
  when it returns a falsy value, the run is a redirect to
  \<open>{baseUrl}/error?error=CredentialsSignin&provider=<id>\<close>, the id URI-encoded, and
  nothing else.  In both runs no hook but \<open>authorize\<close> is called (no token is
  issued) and no cookie is set.
\<close>

theorem credentials_error_discrimination:
  assumes "map_of (providers opts) (providerName opts) = Some p"
    and "provider_type p = ''credentials''" and "req_method req = ''POST''"
    and "session_jwt opts" and "provider_authorize p = Some authorize"
  shows "(\<forall>e. authorize (req_body req) = Inl e \<longrightarrow>
            callback w opts req =
              ([Call Authorize [req_body req], Status 302,
                SetHeader ''Location'' (baseUrl opts @ ''/error?error=Configuration''),
                End None, Done], None)) \<and>
         (\<forall>v. authorize (req_body req) = Inr v \<and> \<not> truthy v \<longrightarrow>
            callback w opts req =
              ([Call Authorize [req_body req], Status 302,
                SetHeader ''Location''
                  (baseUrl opts @ ''/error?error=CredentialsSignin&provider='' @
                   encodeURIComponent (provider_id p)),
                End None, Done], None))"
  using assms
  by (simp add: callback_def credentials_callback_def credentials_signin_def emit_def redirect_def
      error_page_def)

section \<open>Facts about the codecs\<close>

lemma char_of_eq_iff_nat: "n < 256 \<Longrightarrow> (char_of (n::nat) = c) = (n = of_char c)"
  by (simp add: char_of_eq_iff take_bit_eq_mod)

lemma b64char_sound: "n < 64 \<Longrightarrow> unbase64 (b64char n) = Some n"
  unfolding b64char_def unbase64_def Let_def
  by (auto simp: of_char_of)

lemma b64char_not_pad: "n < 64 \<Longrightarrow> b64char n \<noteq> CHR ''=''"
  unfolding b64char_def
  by (auto simp: char_of_eq_iff_nat)

lemma b64char_not_pct: "n < 64 \<Longrightarrow> b64char n \<noteq> CHR ''%''"
  unfolding b64char_def
  by (auto simp: char_of_eq_iff_nat)

lemma b64_sextets_char: "n < 64 \<Longrightarrow> b64_sextets (b64char n # cs) = n # b64_sextets cs"
  by (simp add: b64char_sound b64char_not_pad)

lemma sextet_bounds:
  fixes x y z :: nat
  assumes "x < 256" "y < 256" "z < 256"
  shows "x div 4 < 64" "x mod 4 * 16 + y div 16 < 64" "y mod 16 * 4 + z div 64 < 64" "z mod 64 < 64"
    "x mod 4 * 16 < 64" "y mod 16 * 4 < 64"
  using assms by auto

lemma sextet_bytes:
  fixes x y z :: nat
  assumes "x < 256" "y < 256" "z < 256"
  shows "x div 4 * 4 + (x mod 4 * 16 + y div 16) div 16 = x"
    and "(x mod 4 * 16 + y div 16) mod 16 * 16 + (y mod 16 * 4 + z div 64) div 4 = y"
    and "(y mod 16 * 4 + z div 64) mod 4 * 64 + z mod 64 = z"
    and "(x mod 4 * 16 + y div 16) mod 16 * 16 + (y mod 16 * 4) div 4 = y"
    and "x div 4 * 4 + (x mod 4 * 16) div 16 = x"
  using assms by auto

lemma group3:
  fixes x y z :: nat
  assumes "x < 256" "y < 256" "z < 256"
  shows "b64_groups (b64_sextets (b64char (x div 4) # b64char (x mod 4 * 16 + y div 16) #
           b64char (y mod 16 * 4 + z div 64) # b64char (z mod 64) # cs)) =
         char_of x # char_of y # char_of z # b64_groups (b64_sextets cs)"
  by (simp only: b64_sextets_char sextet_bounds [OF assms] b64_groups.simps sextet_bytes [OF assms])

lemma group2:
  fixes x y :: nat
  assumes "x < 256" "y < 256"
  shows "b64_groups (b64_sextets [b64char (x div 4), b64char (x mod 4 * 16 + y div 16),
           b64char (y mod 16 * 4), CHR ''='']) = [char_of x, char_of y]"
proof -
  have "b64_sextets [CHR ''=''] = []" by simp
  then show ?thesis
    by (simp only: b64_sextets_char sextet_bounds [OF assms assms(2)] b64_groups.simps
        sextet_bytes [OF assms assms(2)])
qed

lemma group1:
  fixes x :: nat
  assumes "x < 256"
  shows "b64_groups (b64_sextets [b64char (x div 4), b64char (x mod 4 * 16), CHR ''='', CHR ''='']) =
         [char_of x]"
proof -
  have "b64_sextets [CHR ''='', CHR ''=''] = []" by simp
  then show ?thesis
    by (simp only: b64_sextets_char sextet_bounds [OF assms assms assms] b64_groups.simps
        sextet_bytes [OF assms assms assms])
qed

lemma base64_roundtrip: "base64_dec (base64_enc s) = s"
proof (induction s rule: base64_enc.induct)
  case (1 a b c rest)
  have "base64_dec (base64_enc (a # b # c # rest)) =
        char_of (of_char a :: nat) # char_of (of_char b :: nat) # char_of (of_char c :: nat) #
        base64_dec (base64_enc rest)"
    unfolding base64_dec_def base64_enc.simps Let_def
    by (rule group3) simp_all
  with 1 show ?case by simp
next
  case (2 a b)
  have "base64_dec (base64_enc [a, b]) = [char_of (of_char a :: nat), char_of (of_char b :: nat)]"
    unfolding base64_dec_def base64_enc.simps Let_def
    by (rule group2) simp_all
  then show ?case by simp
next
  case (3 a)
  have "base64_dec (base64_enc [a]) = [char_of (of_char a :: nat)]"
    unfolding base64_dec_def base64_enc.simps Let_def
    by (rule group1) simp_all
  then show ?case by simp
next
  case 4
  show ?case by (simp add: base64_dec_def)
qed

lemma b64char_not_pct': "n < 64 \<Longrightarrow> CHR ''%'' \<noteq> b64char n"
  using b64char_not_pct [of n] by auto

lemma base64_no_pct: "CHR ''%'' \<notin> set (base64_enc s)"
proof (induction s rule: base64_enc.induct)
  case (1 a b c rest)
  have "(of_char a :: nat) < 256" "(of_char b :: nat) < 256" "(of_char c :: nat) < 256" by simp_all
  from sextet_bounds [OF this] 1 show ?case
    by (simp add: Let_def b64char_not_pct')
next
  case (2 a b)
  have "(of_char a :: nat) < 256" "(of_char b :: nat) < 256" by simp_all
  from sextet_bounds [OF this this(2)] show ?case
    by (simp add: Let_def b64char_not_pct')
next
  case (3 a)
  have "(of_char a :: nat) < 256" by simp_all
  from sextet_bounds [OF this this this] show ?case
    by (simp add: Let_def b64char_not_pct')
qed simp

lemma decode_uri_plain: "CHR ''%'' \<notin> set s \<Longrightarrow> decode_uri s = Some s"
  by (induction s) auto

lemma decodeURIComponent_base64: "decodeURIComponent (base64_enc s) = Inr (base64_enc s)"
  by (simp add: decodeURIComponent_def decode_uri_plain base64_no_pct)

lemma base64_enc_nonempty: "s \<noteq> [] \<Longrightarrow> base64_enc s \<noteq> []"
  by (induction s rule: base64_enc.induct) (simp_all add: Let_def)

lemma length_hex256: "length (hex256 w) = 64"
  by (simp add: hex256_def)

lemma hex256_nonempty: "hex256 w \<noteq> []"
  using length_hex256 [of w] by auto

lemma utf8_ascii: "list_all (in_range 0 127) s \<Longrightarrow> utf8_toString s = s"
  by (induction s) auto

lemma repl_cons:
  "(REPLACEMENT @ X = c # r) = (c = char_of (239::nat) \<and> r = char_of (191::nat) # char_of (189::nat) # X)"
  by (auto simp: REPLACEMENT_def)

lemma repl_eq:
  "(REPLACEMENT = c # r) = (c = char_of (239::nat) \<and> r = [char_of (191::nat), char_of (189::nat)])"
  by (auto simp: REPLACEMENT_def)

lemma in_range_char_of: "n < 256 \<Longrightarrow> in_range lo hi (char_of n) = (lo \<le> n \<and> n \<le> hi)"
  by (simp add: in_range_def)

lemma second_239: "second_lo (char_of (239::nat)) = 128" "second_hi (char_of (239::nat)) = 191"
  by (simp_all add: second_lo_def second_hi_def)

lemma class_excl:
  "in_range 194 223 c \<Longrightarrow> \<not> in_range 0 127 c"
  "in_range 224 239 c \<Longrightarrow> \<not> in_range 0 127 c \<and> \<not> in_range 194 223 c"
  "in_range 240 244 c \<Longrightarrow> \<not> in_range 0 127 c \<and> \<not> in_range 194 223 c \<and> \<not> in_range 224 239 c"
  by (auto simp: in_range_def)

lemma step2:
  assumes "in_range 194 223 c" and "utf8_toString (c # cs) = c # cs"
  shows "\<exists>d ds. cs = d # ds \<and> in_range 128 191 d \<and> utf8_toString ds = ds"
proof (cases cs)
  case Nil
  with assms class_excl(1) [OF assms(1)] show ?thesis by (simp add: repl_eq)
next
  case (Cons d ds)
  show ?thesis
  proof (cases "in_range 128 191 d")
    case True
    with assms class_excl(1) [OF assms(1)] Cons show ?thesis by simp
  next
    case False
    with assms class_excl(1) [OF assms(1)] Cons have "c = char_of (239::nat)"
      by (simp add: repl_cons)
    with assms(1) show ?thesis by (simp add: in_range_char_of)
  qed
qed

lemma step3:
  assumes "in_range 224 239 c" and "utf8_toString (c # cs) = c # cs"
  shows "\<exists>d e es. cs = d # e # es \<and> in_range (second_lo c) (second_hi c) d \<and> in_range 128 191 e \<and>
           utf8_toString es = es"
proof -
  note x = class_excl(2) [OF assms(1)]
  show ?thesis
  proof (cases cs)
    case Nil
    with assms x show ?thesis by (simp add: repl_eq)
  next
    case (Cons d ds)
    show ?thesis
    proof (cases "in_range (second_lo c) (second_hi c) d")
      case False
      with assms x Cons have "c = char_of (239::nat) \<and> d = char_of (191::nat)"
        by (simp add: repl_cons)
      with False show ?thesis by (simp add: in_range_char_of second_239)
    next
      case True
      show ?thesis
      proof (cases ds)
        case Nil
        with assms x Cons True show ?thesis by (simp add: repl_eq)
      next
        case (Cons e es)
        show ?thesis
        proof (cases "in_range 128 191 e")
          case False
          with assms x \<open>cs = d # ds\<close> Cons True have "e = char_of (189::nat)"
            by (simp add: repl_cons)
          with False show ?thesis by (simp add: in_range_char_of)
        next
          case t: True
          with assms x \<open>cs = d # ds\<close> Cons True show ?thesis by simp
        qed
      qed
    qed
  qed
qed

lemma step4:
  assumes "in_range 240 244 c" and "utf8_toString (c # cs) = c # cs"
  shows "\<exists>d e f fs. cs = d # e # f # fs \<and> in_range (second_lo c) (second_hi c) d \<and>
           in_range 128 191 e \<and> in_range 128 191 f \<and> utf8_toString fs = fs"
proof -
  note x = class_excl(3) [OF assms(1)]
  have c: "c \<noteq> char_of (239::nat)"
    using assms(1) by (auto simp: in_range_char_of)
  show ?thesis
  proof (cases cs)
    case Nil
    with assms x show ?thesis by (simp add: repl_eq)
  next
    case (Cons d ds)
    show ?thesis
    proof (cases "in_range (second_lo c) (second_hi c) d")
      case False
      with assms x Cons c show ?thesis
        by (simp add: repl_cons)
    next
      case True
      show ?thesis
      proof (cases ds)
        case Nil
        with assms x Cons True show ?thesis by (simp add: repl_eq)
      next
        case ds: (Cons e es)
        show ?thesis
        proof (cases "in_range 128 191 e")
          case False
          with assms x Cons ds True c show ?thesis
            by (simp add: repl_cons)
        next
          case t: True
          show ?thesis
          proof (cases es)
            case Nil
            with assms x Cons ds True t c show ?thesis by (simp add: repl_eq)
          next
            case es: (Cons f fs)
            show ?thesis
            proof (cases "in_range 128 191 f")
              case False
              with assms x Cons ds es True t c show ?thesis by (simp add: repl_cons)
            next
              case True
              with assms x Cons ds es \<open>in_range (second_lo c) (second_hi c) d\<close> t show ?thesis
                by simp
            qed
          qed
        qed
      qed
    qed
  qed
qed

lemma step_bad:
  assumes "\<not> in_range 0 127 c" "\<not> in_range 194 223 c" "\<not> in_range 224 239 c" "\<not> in_range 240 244 c"
  shows "utf8_toString (c # cs) \<noteq> c # cs"
proof
  assume "utf8_toString (c # cs) = c # cs"
  with assms have "c = char_of (239::nat)" by (simp add: repl_cons)
  with assms(3) show False by (simp add: in_range_char_of)
qed

lemma utf8_append:
  "utf8_toString a = a \<Longrightarrow> utf8_toString (a @ b) = a @ utf8_toString b"
proof (induction a rule: length_induct)
  case (1 a)
  show ?case
  proof (cases a)
    case Nil
    then show ?thesis by simp
  next
    case (Cons c cs)
    consider "in_range 0 127 c" | "in_range 194 223 c" | "in_range 224 239 c" | "in_range 240 244 c"
      | "\<not> in_range 0 127 c" "\<not> in_range 194 223 c" "\<not> in_range 224 239 c" "\<not> in_range 240 244 c"
      by blast
    then show ?thesis
    proof cases
      case 1
      with "1.prems" Cons have "utf8_toString cs = cs" by simp
      with "1.IH" Cons have "utf8_toString (cs @ b) = cs @ utf8_toString b" by simp
      with 1 Cons show ?thesis by simp
    next
      case 2
      from step2 [OF 2] "1.prems" Cons obtain d ds
        where *: "cs = d # ds" "in_range 128 191 d" "utf8_toString ds = ds" by blast
      with "1.IH" Cons have "utf8_toString (ds @ b) = ds @ utf8_toString b" by simp
      with 2 class_excl(1) [OF 2] * Cons show ?thesis by simp
    next
      case 3
      from step3 [OF 3] "1.prems" Cons obtain d e es
        where *: "cs = d # e # es" "in_range (second_lo c) (second_hi c) d" "in_range 128 191 e"
          "utf8_toString es = es" by blast
      with "1.IH" Cons have "utf8_toString (es @ b) = es @ utf8_toString b" by simp
      with 3 class_excl(2) [OF 3] * Cons show ?thesis by simp
    next
      case 4
      from step4 [OF 4] "1.prems" Cons obtain d e f fs
        where *: "cs = d # e # f # fs" "in_range (second_lo c) (second_hi c) d" "in_range 128 191 e"
          "in_range 128 191 f" "utf8_toString fs = fs" by blast
      with "1.IH" Cons have "utf8_toString (fs @ b) = fs @ utf8_toString b" by simp
      with 4 class_excl(3) [OF 4] * Cons show ?thesis by simp
    next
      case 5
      with step_bad [OF 5] "1.prems" Cons show ?thesis by simp
    qed
  qed
qed

section \<open>The signed payload, there and back\<close>

lemma split_on_none: "c \<notin> set s \<Longrightarrow> split_on c s = [s]"
  by (induction s) auto

lemma split_on_append: "c \<notin> set a \<Longrightarrow> split_on c (a @ c # b) = a # split_on c b"
  by (induction a) auto

lemma plus_map_id: "CHR ''+'' \<notin> set t \<Longrightarrow> map (\<lambda>c. if c = CHR ''+'' then CHR '' '' else c) t = t"
  by (induction t) auto

lemma qs_token_id: "CHR ''+'' \<notin> set t \<Longrightarrow> \<not> has_escape t \<Longrightarrow> qs_token t = t"
  by (simp add: qs_token_def plus_map_id)

lemma qs_parse_payload:
  assumes "CHR ''&'' \<notin> set nonce" "CHR ''+'' \<notin> set nonce" "\<not> has_escape nonce"
    and "CHR ''&'' \<notin> set url" "CHR ''+'' \<notin> set url" "\<not> has_escape url"
  shows "qs_parse (sso_payload nonce url) = [(''nonce'', JStr nonce), (''return_sso_url'', JStr url)]"
proof -
  have a: "CHR ''&'' \<notin> set (''nonce='' @ nonce)" using assms(1) by simp
  have b: "CHR ''&'' \<notin> set (''return_sso_url='' @ url)" using assms(4) by simp
  have s: "split_on (CHR ''&'') (sso_payload nonce url) = [''nonce='' @ nonce, ''return_sso_url='' @ url]"
    unfolding sso_payload_def
    using split_on_append [OF a, of "''return_sso_url='' @ url"] split_on_none [OF b]
    by simp
  have k1: "qs_token ''nonce'' = ''nonce''" by (simp add: qs_token_def)
  have k2: "qs_token ''return_sso_url'' = ''return_sso_url''" by (simp add: qs_token_def)
  have p1: "qs_pair [] (''nonce='' @ nonce) = [(''nonce'', JStr nonce)]"
    by (simp add: qs_pair_def k1 qs_token_id assms addKeyValue_def)
  have p2: "qs_pair [(''nonce'', JStr nonce)] (''return_sso_url='' @ url) =
            [(''nonce'', JStr nonce), (''return_sso_url'', JStr url)]"
    by (simp add: qs_pair_def k2 qs_token_id assms addKeyValue_def)
  have ne: "sso_payload nonce url \<noteq> []" by (simp add: sso_payload_def)
  have f: "foldl qs_pair [] (take 1000 [''nonce='' @ nonce, ''return_sso_url='' @ url]) =
           qs_pair (qs_pair [] (''nonce='' @ nonce)) (''return_sso_url='' @ url)"
    by simp
  show ?thesis
    using ne by (simp only: qs_parse_def s f p1 p2 if_False)
qed

lemma utf8_payload:
  assumes "utf8_toString nonce = nonce" "utf8_toString url = url"
  shows "utf8_toString (sso_payload nonce url) = sso_payload nonce url"
proof -
  have l1: "utf8_toString ''nonce='' = ''nonce=''" by (simp add: in_range_def)
  have l2: "utf8_toString ''&return_sso_url='' = ''&return_sso_url=''" by (simp add: in_range_def)
  have "utf8_toString (''nonce='' @ nonce @ ''&return_sso_url='' @ url) =
        ''nonce='' @ nonce @ ''&return_sso_url='' @ url"
    by (simp only: utf8_append [OF l1] utf8_append [OF assms(1)] utf8_append [OF l2] assms(2))
  then show ?thesis by (simp only: sso_payload_def)
qed

lemma sso_decode_payload:
  assumes "CHR ''&'' \<notin> set nonce" "CHR ''+'' \<notin> set nonce" "\<not> has_escape nonce"
    and "CHR ''&'' \<notin> set url" "CHR ''+'' \<notin> set url" "\<not> has_escape url"
    and "utf8_toString nonce = nonce" "utf8_toString url = url"
  shows "sso_decode (payload_b64 nonce url) = [(''nonce'', JStr nonce), (''return_sso_url'', JStr url)]"
  by (simp add: sso_decode_def payload_b64_def base64_roundtrip utf8_payload assms qs_parse_payload)

lemma discourse_entry:
  assumes "map_of (providers opts) (providerName opts) = Some p" and "provider_type p = ''discourse''"
  shows "callback w opts req =
         discourse_callback w opts p req
           (case req_cookies req of None \<Rightarrow> JNull
            | Some cs \<Rightarrow> of_opt (map_of cs (cookie_name (cookies_sessionToken opts))))"
  using assms by (simp add: callback_def)

lemma payload_b64_nonempty: "payload_b64 nonce url \<noteq> []"
  by (simp add: payload_b64_def base64_enc_nonempty sso_payload_def)

text \<open>
  C1, as the code has it.  For every nonce, return URL and secret, the callback
  given the payload \<open>base64(nonce=<nonce>&return_sso_url=<url>)\<close> and its signature
  accepts the signature: it goes on to decode the payload and to check the nonce.
  It decodes exactly the two fields when the nonce and the URL contain no \<open>&\<close>, no
  \<open>+\<close> and no escape \<open>%XX\<close> (and are well-formed text): \<open>querystring.parse\<close>
  splits at \<open>&\<close>, reads \<open>+\<close> as a space and decodes escapes, and the initiation
  escapes nothing.
\<close>

theorem sso_signed_payload_roundtrip:
  assumes "map_of (providers opts) (providerName opts) = Some p"
    and "provider_type p = ''discourse''"
    and "map_of (req_query req) ''sso'' = Some (payload_b64 nonce url)"
    and "map_of (req_query req) ''sig'' = Some (hex_sig (hmac w) (provider_secret p) nonce url)"
  shows "(\<exists>sessionToken.
            callback w opts req =
              emit [Hmac (payload_b64 nonce url), Decode (payload_b64 nonce url)]
                (discourse_nonce w opts p req sessionToken (sso_decode (payload_b64 nonce url)))) \<and>
         (CHR ''&'' \<notin> set nonce \<and> CHR ''+'' \<notin> set nonce \<and> \<not> has_escape nonce \<and>
          CHR ''&'' \<notin> set url \<and> CHR ''+'' \<notin> set url \<and> \<not> has_escape url \<and>
          utf8_toString nonce = nonce \<and> utf8_toString url = url \<longrightarrow>
          sso_decode (payload_b64 nonce url) =
            [(''nonce'', JStr nonce), (''return_sso_url'', JStr url)])"
proof (intro conjI impI)
  have "decodeURIComponent (payload_b64 nonce url) = Inr (payload_b64 nonce url)"
    by (simp add: payload_b64_def decodeURIComponent_base64)
  then have "callback w opts req =
      emit [Hmac (payload_b64 nonce url), Decode (payload_b64 nonce url)]
        (discourse_nonce w opts p req
           (case req_cookies req of None \<Rightarrow> JNull
            | Some cs \<Rightarrow> of_opt (map_of cs (cookie_name (cookies_sessionToken opts))))
           (sso_decode (payload_b64 nonce url)))"
    using assms(3,4)
    by (simp add: discourse_entry [OF assms(1,2)] discourse_callback_def discourse_verify_def
        of_opt_def payload_b64_nonempty hex_sig_def hex256_nonempty emit_def)
  then show "\<exists>sessionToken.
            callback w opts req =
              emit [Hmac (payload_b64 nonce url), Decode (payload_b64 nonce url)]
                (discourse_nonce w opts p req sessionToken (sso_decode (payload_b64 nonce url)))"
    by blast
next
  assume "CHR ''&'' \<notin> set nonce \<and> CHR ''+'' \<notin> set nonce \<and> \<not> has_escape nonce \<and>
          CHR ''&'' \<notin> set url \<and> CHR ''+'' \<notin> set url \<and> \<not> has_escape url \<and>
          utf8_toString nonce = nonce \<and> utf8_toString url = url"
  then show "sso_decode (payload_b64 nonce url) =
            [(''nonce'', JStr nonce), (''return_sso_url'', JStr url)]"
    by (simp add: sso_decode_payload)
qed

text \<open>
  A return URL with a query of its own is not decoded as it was sent: its second
  parameter becomes a field of the payload.
\<close>

theorem return_url_with_ampersand_counterexample:
  "obj_get (sso_decode (payload_b64 ''abc123'' ''https://app/x?a=1&b=2'')) ''return_sso_url'' =
     JStr ''https://app/x?a=1'' \<and>
   sso_decode (payload_b64 ''abc123'' ''https://app/x?a=1&b=2'') \<noteq>
     [(''nonce'', JStr ''abc123''), (''return_sso_url'', JStr ''https://app/x?a=1&b=2'')]"
proof -
  have u: "utf8_toString (sso_payload ''abc123'' ''https://app/x?a=1&b=2'') =
           sso_payload ''abc123'' ''https://app/x?a=1&b=2''"
    by (rule utf8_payload) (simp_all add: in_range_def)
  have "sso_decode (payload_b64 ''abc123'' ''https://app/x?a=1&b=2'') =
        [(''nonce'', JStr ''abc123''), (''return_sso_url'', JStr ''https://app/x?a=1''),
         (''b'', JStr ''2'')]"
    unfolding sso_decode_def payload_b64_def base64_roundtrip u
    by (simp add: sso_payload_def qs_parse_def qs_pair_def qs_token_def addKeyValue_def)
  then show ?thesis by (simp add: obj_get_def)
qed

lemma hexdigit_cases: "hexdigit n \<in> set ''0123456789abcdef''"
  unfolding hexdigit_def by (rule nth_mem) simp

lemma hex_of_bytes_digits: "set (hex_of_bytes buf) \<subseteq> set ''0123456789abcdef''"
  unfolding hex_of_bytes_def using hexdigit_cases by auto

lemma pct_at_other: "c \<noteq> CHR ''%'' \<Longrightarrow> pct_at (c # cs) = None"
  by (cases "c # cs" rule: pct_at.cases) auto

lemma no_pct_no_escape: "CHR ''%'' \<notin> set s \<Longrightarrow> \<not> has_escape s"
  by (induction s) (auto simp: pct_at_other)

lemma hex_nonce_clean:
  "CHR ''&'' \<notin> set (hex_of_bytes buf) \<and> CHR ''+'' \<notin> set (hex_of_bytes buf) \<and>
   \<not> has_escape (hex_of_bytes buf) \<and> utf8_toString (hex_of_bytes buf) = hex_of_bytes buf"
proof -
  have a: "\<And>c. c \<in> set (hex_of_bytes buf) \<Longrightarrow> c \<in> set ''0123456789abcdef''"
    using hex_of_bytes_digits by blast
  have "list_all (in_range 0 127) (hex_of_bytes buf)"
    unfolding list_all_iff by (auto simp: in_range_def dest!: a)
  then have "utf8_toString (hex_of_bytes buf) = hex_of_bytes buf" by (rule utf8_ascii)
  moreover have "CHR ''&'' \<notin> set (hex_of_bytes buf)" "CHR ''+'' \<notin> set (hex_of_bytes buf)"
    "CHR ''%'' \<notin> set (hex_of_bytes buf)"
    using a by fastforce+
  ultimately show ?thesis by (simp add: no_pct_no_escape)
qed

text \<open>
  What \<open>getAuthorisationUrl\<close> hands to its callback, and the callback's decoding of
  the payload it signed: the nonce is hexadecimal, so only the return URL matters.
\<close>

lemma getAuthorisationUrl_result:
  "getAuthorisationUrl H p (Inr buf) =
     ([], Inr (hex256 (H (provider_secret p) (hex_of_bytes buf)),
               provider_url p @ ''/session/sso_provider?sso='' @
               encodeURIComponent (payload_b64 (hex_of_bytes buf) (provider_callbackUrl p)) @
               ''&sig='' @ hex_sig H (provider_secret p) (hex_of_bytes buf) (provider_callbackUrl p)))"
  by (simp add: getAuthorisationUrl_def Let_def)

lemma initiation_payload_decoded:
  assumes "CHR ''&'' \<notin> set (provider_callbackUrl p)" "CHR ''+'' \<notin> set (provider_callbackUrl p)"
    and "\<not> has_escape (provider_callbackUrl p)"
    and "utf8_toString (provider_callbackUrl p) = provider_callbackUrl p"
  shows "sso_decode (payload_b64 (hex_of_bytes buf) (provider_callbackUrl p)) =
           [(''nonce'', JStr (hex_of_bytes buf)), (''return_sso_url'', JStr (provider_callbackUrl p))]"
  using hex_nonce_clean [of buf] assms by (simp add: sso_decode_payload)

section \<open>Runs of the discourse branch\<close>

lemma example_sso_decoded:
  "sso_decode example_sso =
     [(''nonce'', JStr ''abc123''), (''external_id'', JStr ''42''), (''email'', JStr ''a@b.com''),
      (''username'', JStr ''ann'')]"
  by code_simp

lemma example_no_nonce_decoded:
  "sso_decode example_no_nonce_sso =
     [(''external_id'', JStr ''42''), (''email'', JStr ''a@b.com''), (''username'', JStr ''ann'')]"
  by code_simp

lemma example_sso_plain: "decodeURIComponent example_sso = Inr example_sso"
  by (simp add: decodeURIComponent_def decode_uri_plain example_sso_def)

lemma example_no_nonce_plain: "decodeURIComponent example_no_nonce_sso = Inr example_no_nonce_sso"
  by (simp add: decodeURIComponent_def decode_uri_plain example_no_nonce_sso_def)

lemma corrupt_differs: "s \<noteq> [] \<Longrightarrow> corrupt s \<noteq> s"
  by (cases s) (auto simp: corrupt_def)

lemma corrupt_nonempty: "s \<noteq> [] \<Longrightarrow> corrupt s \<noteq> []"
  by (cases s) (auto simp: corrupt_def)

lemma discourse_bad_signature:
  assumes "map_of (req_query req) ''sso'' = Some sso" and "map_of (req_query req) ''sig'' = Some sig"
    and "sso \<noteq> []" and "sig \<noteq> []" and "decodeURIComponent sso = Inr d"
    and "sig \<noteq> hex256 (hmac w (provider_secret p) d)"
  shows "discourse_callback w opts p req st =
           ([Hmac d, LogError ''CALLBACK_OAUTH_ERROR'', Status 302,
             SetHeader ''Location'' (baseUrl opts @ ''/error?error=oAuthCallback''), End None, Done],
            None)"
  using assms
  by (simp add: discourse_callback_def discourse_verify_def of_opt_def emit_def redirect_def
      error_page_def)

lemma discourse_good_signature:
  assumes "map_of (req_query req) ''sso'' = Some sso" and "map_of (req_query req) ''sig'' = Some sig"
    and "sso \<noteq> []" and "decodeURIComponent sso = Inr d"
    and "sig = hex256 (hmac w (provider_secret p) d)"
  shows "discourse_callback w opts p req st =
           emit [Hmac d, Decode sso] (discourse_nonce w opts p req st (sso_decode sso))"
  using assms
  by (simp add: discourse_callback_def discourse_verify_def of_opt_def emit_def hex256_nonempty)

lemma discourse_nonce_mismatch:
  assumes "obj_get ret ''nonce'' = JStr n" and "req_cookies req = Some cs"
    and "map_of cs (cookie_name (cookies_nonceHash opts)) \<noteq> Some (hex256 (hmac w (provider_secret p) n))"
  shows "discourse_nonce w opts p req st ret =
           ([Hmac n,
             CookieSet (cookie_name (cookies_nonceHash opts)) (JStr [])
               (spread [(''maxAge'', JNum (- 1))] (cookie_options (cookies_nonceHash opts))),
             LogError ''CALLBACK_OAUTH_ERROR'', Status 302,
             SetHeader ''Location'' (baseUrl opts @ ''/error?error=oAuthCallback''), End None, Done],
            None)"
  using assms
  by (simp add: discourse_nonce_def emit_def redirect_def error_page_def)

lemma discourse_nonce_match:
  assumes "obj_get ret ''nonce'' = JStr n" and "req_cookies req = Some cs"
    and "map_of cs (cookie_name (cookies_nonceHash opts)) = Some (hex256 (hmac w (provider_secret p) n))"
  shows "discourse_nonce w opts p req st ret =
           emit [Hmac n,
             CookieSet (cookie_name (cookies_nonceHash opts)) (JStr [])
               (spread [(''maxAge'', JNum (- 1))] (cookie_options (cookies_nonceHash opts)))]
             (discourse_fields w opts p st ret)"
  using assms
  by (simp add: discourse_nonce_def emit_def of_opt_def hex256_nonempty)

lemma discourse_nonce_absent:
  assumes "\<forall>n. obj_get ret ''nonce'' \<noteq> JStr n"
  shows "discourse_nonce w opts p req st ret = ([], Some TypeError)"
  using assms
  by (cases "obj_get ret ''nonce''") (simp_all add: discourse_nonce_def throw_def)

lemma no_decode_simps [simp]:
  "no_decode (redirect l)" "no_decode (throw e)"
  "no_decode (emit es r) = (\<not> list_ex is_decode es \<and> no_decode r)"
  by (auto simp: no_decode_def redirect_def throw_def emit_def)

lemma no_decode_await [simp]: "(\<And>v. no_decode (k v)) \<Longrightarrow> no_decode (await h args r k)"
  by (cases r) (simp_all add: await_def)

lemma no_decode_issue [simp]: "no_decode rest \<Longrightarrow> no_decode (issue_session w opts h account extra rest)"
  by (simp add: issue_session_def Let_def split: sum.splits)

lemma no_decode_dispatch [simp]: "no_decode rest \<Longrightarrow> no_decode (dispatch_signin w h account rest)"
  by (simp add: dispatch_signin_def Let_def)

lemma no_decode_signin [simp]: "no_decode (discourse_signin w opts st profile account)"
  by (simp add: discourse_signin_def)

lemma no_decode_fields [simp]: "no_decode (discourse_fields w opts p st ret)"
  by (simp add: discourse_fields_def)

lemma no_decode_nonce [simp]: "no_decode (discourse_nonce w opts p req st ret)"
  by (simp add: discourse_nonce_def Let_def split: jsval.splits option.splits)

text \<open>
  C7.  In the discourse branch a signature that does not match ends the run with the
  error redirect, the payload undecoded; and a run that decodes the payload has
  compared the signature with the digest and found them equal, decodes after that
  and decodes once.
\<close>

theorem decode_only_after_verification:
  assumes "map_of (providers opts) (providerName opts) = Some p"
    and "provider_type p = ''discourse''"
  shows "(\<forall>sso sig d.
            map_of (req_query req) ''sso'' = Some sso \<and> map_of (req_query req) ''sig'' = Some sig \<and>
            sso \<noteq> [] \<and> sig \<noteq> [] \<and> decodeURIComponent sso = Inr d \<and>
            sig \<noteq> hex256 (hmac w (provider_secret p) d) \<longrightarrow>
            callback w opts req =
              ([Hmac d, LogError ''CALLBACK_OAUTH_ERROR'', Status 302,
                SetHeader ''Location'' (baseUrl opts @ ''/error?error=oAuthCallback''), End None, Done],
               None)) \<and>
         (list_ex is_decode (fst (callback w opts req)) \<longrightarrow>
            (\<exists>sso d rest.
               map_of (req_query req) ''sso'' = Some sso \<and> decodeURIComponent sso = Inr d \<and>
               map_of (req_query req) ''sig'' = Some (hex256 (hmac w (provider_secret p) d)) \<and>
               fst (callback w opts req) = Hmac d # Decode sso # rest \<and>
               \<not> list_ex is_decode rest))"
proof (intro conjI allI impI)
  fix sso sig d
  assume "map_of (req_query req) ''sso'' = Some sso \<and> map_of (req_query req) ''sig'' = Some sig \<and>
            sso \<noteq> [] \<and> sig \<noteq> [] \<and> decodeURIComponent sso = Inr d \<and>
            sig \<noteq> hex256 (hmac w (provider_secret p) d)"
  then show "callback w opts req =
              ([Hmac d, LogError ''CALLBACK_OAUTH_ERROR'', Status 302,
                SetHeader ''Location'' (baseUrl opts @ ''/error?error=oAuthCallback''), End None, Done],
               None)"
    by (simp add: discourse_entry [OF assms] discourse_bad_signature)
next
  let ?st = "case req_cookies req of None \<Rightarrow> JNull
            | Some cs \<Rightarrow> of_opt (map_of cs (cookie_name (cookies_sessionToken opts)))"
  assume dec: "list_ex is_decode (fst (callback w opts req))"
  then have dec': "list_ex is_decode (fst (discourse_callback w opts p req ?st))"
    by (simp add: discourse_entry [OF assms])
  then obtain sso sig where q: "map_of (req_query req) ''sso'' = Some sso"
      "map_of (req_query req) ''sig'' = Some sig" "sso \<noteq> []" "sig \<noteq> []"
    by (auto simp: discourse_callback_def of_opt_def emit_def redirect_def Let_def
        split: option.splits if_splits)
  from dec' q obtain d where d: "decodeURIComponent sso = Inr d"
    by (cases "decodeURIComponent sso")
      (auto simp: discourse_callback_def discourse_verify_def of_opt_def throw_def)
  have eq: "sig = hex256 (hmac w (provider_secret p) d)"
  proof (rule ccontr)
    assume "sig \<noteq> hex256 (hmac w (provider_secret p) d)"
    from discourse_bad_signature [OF q d this, of opts ?st] dec' show False by simp
  qed
  from discourse_good_signature [OF q(1,2,3) d eq, of opts ?st]
  have "fst (callback w opts req) =
        Hmac d # Decode sso # fst (discourse_nonce w opts p req ?st (sso_decode sso))"
    by (simp add: discourse_entry [OF assms] emit_def)
  moreover have "\<not> list_ex is_decode (fst (discourse_nonce w opts p req ?st (sso_decode sso)))"
    using no_decode_nonce [of w opts p req ?st "sso_decode sso"] by (simp add: no_decode_def)
  ultimately show "\<exists>sso d rest.
               map_of (req_query req) ''sso'' = Some sso \<and> decodeURIComponent sso = Inr d \<and>
               map_of (req_query req) ''sig'' = Some (hex256 (hmac w (provider_secret p) d)) \<and>
               fst (callback w opts req) = Hmac d # Decode sso # rest \<and>
               \<not> list_ex is_decode rest"
    using q d eq by blast
qed

lemma example_lookup:
  "map_of (providers example_options) (providerName example_options) = Some example_discourse"
  by (simp add: example_options_def example_providers_def)

lemma example_type: "provider_type example_discourse = ''discourse''"
  by (simp add: example_discourse_def)

lemma example_sig_nonempty: "example_sig \<noteq> []"
  by (simp add: example_sig_def hex256_nonempty)

lemma example_sso_nonempty: "example_sso \<noteq> []"
  by (simp add: example_sso_def)

lemma not_hex256: "length s \<noteq> 64 \<Longrightarrow> s \<noteq> hex256 w"
  by (auto simp: length_hex256)

lemma example_options_fields:
  "baseUrl example_options = ''https://app/api/auth''"
  "site example_options = ''https://app''"
  "callbackUrl example_options = Some ''https://app/x''"
  "pages_newUser example_options = Some ''https://app/welcome''"
  "session_jwt example_options"
  "session_maxAge example_options = 2592000"
  "jwt_secret example_options = JStr ''jwt-secret''"
  "cookie_name (cookies_nonceHash example_options) = ''next-auth.nonce-hash''"
  "cookie_options (cookies_nonceHash example_options) = example_cookie_options"
  "cookie_name (cookies_sessionToken example_options) = ''next-auth.session-token''"
  "cookie_options (cookies_sessionToken example_options) = example_cookie_options"
  by (simp_all add: example_options_def)

lemma example_spread:
  "spread [(''maxAge'', JNum (- 1))] example_cookie_options =
     [(''maxAge'', JNum (- 1)), (''httpOnly'', JBool True), (''sameSite'', JStr ''lax''),
      (''path'', JStr ''/''), (''secure'', JBool True)]"
  by (simp add: spread_def example_cookie_options_def)

text \<open>
  The spec's scenario: secret \<open>s3cret\<close>, nonce \<open>abc123\<close>, return URL
  \<open>https://app/x\<close>.
\<close>

theorem sso_signed_payload_roundtrip_witness:
  "map_of (providers example_options) (providerName example_options) = Some example_discourse \<and>
   provider_type example_discourse = ''discourse'' \<and>
   provider_secret example_discourse = ''s3cret'' \<and>
   payload_b64 ''abc123'' ''https://app/x'' =
     ''bm9uY2U9YWJjMTIzJnJldHVybl9zc29fdXJsPWh0dHBzOi8vYXBwL3g='' \<and>
   (\<exists>sessionToken.
      callback example_modules example_options example_initiation_request =
        emit [Hmac (payload_b64 ''abc123'' ''https://app/x''),
              Decode (payload_b64 ''abc123'' ''https://app/x'')]
          (discourse_nonce example_modules example_options example_discourse
             example_initiation_request sessionToken
             (sso_decode (payload_b64 ''abc123'' ''https://app/x'')))) \<and>
   sso_decode (payload_b64 ''abc123'' ''https://app/x'') =
     [(''nonce'', JStr ''abc123''), (''return_sso_url'', JStr ''https://app/x'')]"
proof -
  have s: "provider_secret example_discourse = ''s3cret''"
    by (simp add: example_discourse_def)
  have h: "hmac example_modules = example_hmac"
    by (simp add: example_modules_def)
  have q1: "map_of (req_query example_initiation_request) ''sso'' =
            Some (payload_b64 ''abc123'' ''https://app/x'')"
    by (simp add: example_initiation_request_def)
  have q2: "map_of (req_query example_initiation_request) ''sig'' =
            Some (hex_sig (hmac example_modules) (provider_secret example_discourse) ''abc123''
                    ''https://app/x'')"
    by (simp add: example_initiation_request_def s h)
  have b: "payload_b64 ''abc123'' ''https://app/x'' =
           ''bm9uY2U9YWJjMTIzJnJldHVybl9zc29fdXJsPWh0dHBzOi8vYXBwL3g=''"
    by code_simp
  have c: "CHR ''&'' \<notin> set ''abc123'' \<and> CHR ''+'' \<notin> set ''abc123'' \<and> \<not> has_escape ''abc123'' \<and>
           CHR ''&'' \<notin> set ''https://app/x'' \<and> CHR ''+'' \<notin> set ''https://app/x'' \<and>
           \<not> has_escape ''https://app/x'' \<and>
           utf8_toString ''abc123'' = ''abc123'' \<and> utf8_toString ''https://app/x'' = ''https://app/x''"
    by (simp add: in_range_def)
  from sso_signed_payload_roundtrip [OF example_lookup example_type q1 q2] c s example_lookup
    example_type b
  show ?thesis by blast
qed

text \<open>
  C4, as the code has it.  A bad signature and a nonce mismatch are answered with
  the same status and the same \<open>Location\<close>, \<open>{baseUrl}/error?error=oAuthCallback\<close>,
  and no session cookie; the answer to a nonce mismatch also carries the directive
  that removes the nonce cookie, which the answer to a bad signature does not.
\<close>

theorem sso_failures_share_redirect:
  assumes "map_of (providers opts) (providerName opts) = Some p"
    and "provider_type p = ''discourse''"
    and "map_of (req_query req) ''sso'' = Some sso" and "map_of (req_query req) ''sig'' = Some sig"
    and "sso \<noteq> []" and "sig \<noteq> []" and "decodeURIComponent sso = Inr d"
  shows "(sig \<noteq> hex256 (hmac w (provider_secret p) d) \<longrightarrow>
            callback w opts req =
              ([Hmac d, LogError ''CALLBACK_OAUTH_ERROR'', Status 302,
                SetHeader ''Location'' (baseUrl opts @ ''/error?error=oAuthCallback''), End None, Done],
               None)) \<and>
         (\<forall>n cs. sig = hex256 (hmac w (provider_secret p) d) \<and>
            obj_get (sso_decode sso) ''nonce'' = JStr n \<and> req_cookies req = Some cs \<and>
            map_of cs (cookie_name (cookies_nonceHash opts)) \<noteq>
              Some (hex256 (hmac w (provider_secret p) n)) \<longrightarrow>
            callback w opts req =
              ([Hmac d, Decode sso, Hmac n,
                CookieSet (cookie_name (cookies_nonceHash opts)) (JStr [])
                  (spread [(''maxAge'', JNum (- 1))] (cookie_options (cookies_nonceHash opts))),
                LogError ''CALLBACK_OAUTH_ERROR'', Status 302,
                SetHeader ''Location'' (baseUrl opts @ ''/error?error=oAuthCallback''), End None, Done],
               None))"
proof (intro conjI allI impI)
  assume "sig \<noteq> hex256 (hmac w (provider_secret p) d)"
  from discourse_bad_signature [OF assms(3-7) this]
  show "callback w opts req =
              ([Hmac d, LogError ''CALLBACK_OAUTH_ERROR'', Status 302,
                SetHeader ''Location'' (baseUrl opts @ ''/error?error=oAuthCallback''), End None, Done],
               None)"
    by (simp add: discourse_entry [OF assms(1,2)])
next
  fix n cs
  assume a: "sig = hex256 (hmac w (provider_secret p) d) \<and>
            obj_get (sso_decode sso) ''nonce'' = JStr n \<and> req_cookies req = Some cs \<and>
            map_of cs (cookie_name (cookies_nonceHash opts)) \<noteq>
              Some (hex256 (hmac w (provider_secret p) n))"
  then have "sig = hex256 (hmac w (provider_secret p) d)"
    and "obj_get (sso_decode sso) ''nonce'' = JStr n" and "req_cookies req = Some cs"
    and "map_of cs (cookie_name (cookies_nonceHash opts)) \<noteq>
              Some (hex256 (hmac w (provider_secret p) n))"
    by simp_all
  from discourse_good_signature [OF assms(3,4,5,7) this(1)] discourse_nonce_mismatch [OF this(2,3,4)]
  show "callback w opts req =
              ([Hmac d, Decode sso, Hmac n,
                CookieSet (cookie_name (cookies_nonceHash opts)) (JStr [])
                  (spread [(''maxAge'', JNum (- 1))] (cookie_options (cookies_nonceHash opts))),
                LogError ''CALLBACK_OAUTH_ERROR'', Status 302,
                SetHeader ''Location'' (baseUrl opts @ ''/error?error=oAuthCallback''), End None, Done],
               None)"
    by (simp add: discourse_entry [OF assms(1,2)] emit_def)
qed

lemma example_bad_sig_run:
  "callback example_modules example_options example_bad_sig_request =
     ([Hmac example_sso, LogError ''CALLBACK_OAUTH_ERROR'', Status 302,
       SetHeader ''Location'' ''https://app/api/auth/error?error=oAuthCallback'', End None, Done],
      None)"
proof -
  have q1: "map_of (req_query example_bad_sig_request) ''sso'' = Some example_sso"
    and q2: "map_of (req_query example_bad_sig_request) ''sig'' = Some (corrupt example_sig)"
    by (simp_all add: example_bad_sig_request_def example_sso_request_def)
  have ne: "corrupt example_sig \<noteq> hex256 (hmac example_modules (provider_secret example_discourse) example_sso)"
    using corrupt_differs [OF example_sig_nonempty]
    by (simp add: example_sig_def example_modules_def example_discourse_def)
  from discourse_bad_signature [OF q1 q2 example_sso_nonempty corrupt_nonempty [OF example_sig_nonempty]
      example_sso_plain ne]
  show ?thesis
    by (simp add: discourse_entry [OF example_lookup example_type] example_options_fields)
qed

lemma example_stale_nonce_run:
  "callback example_modules example_options example_stale_nonce_request =
     ([Hmac example_sso, Decode example_sso, Hmac ''abc123'',
       CookieSet ''next-auth.nonce-hash'' (JStr [])
         [(''maxAge'', JNum (- 1)), (''httpOnly'', JBool True), (''sameSite'', JStr ''lax''),
          (''path'', JStr ''/''), (''secure'', JBool True)],
       LogError ''CALLBACK_OAUTH_ERROR'', Status 302,
       SetHeader ''Location'' ''https://app/api/auth/error?error=oAuthCallback'', End None, Done],
      None)"
proof -
  have q1: "map_of (req_query example_stale_nonce_request) ''sso'' = Some example_sso"
    and q2: "map_of (req_query example_stale_nonce_request) ''sig'' = Some example_sig"
    and c: "req_cookies example_stale_nonce_request = Some [(''next-auth.nonce-hash'', ''a-stale-binding'')]"
    by (simp_all add: example_stale_nonce_request_def example_sso_request_def)
  have eq: "example_sig = hex256 (hmac example_modules (provider_secret example_discourse) example_sso)"
    by (simp add: example_sig_def example_modules_def example_discourse_def)
  have n: "obj_get (sso_decode example_sso) ''nonce'' = JStr ''abc123''"
    by (simp add: example_sso_decoded obj_get_def)
  have m: "map_of [(''next-auth.nonce-hash'', ''a-stale-binding'')]
                 (cookie_name (cookies_nonceHash example_options)) \<noteq>
               Some (hex256 (hmac example_modules (provider_secret example_discourse) ''abc123''))"
    by (simp add: example_options_fields not_hex256)
  from discourse_good_signature [OF q1 q2 example_sso_nonempty example_sso_plain eq]
    discourse_nonce_mismatch [OF n c m]
  show ?thesis
    by (simp add: discourse_entry [OF example_lookup example_type] emit_def example_options_fields
        example_spread)
qed

text \<open>
  The two responses are not the same response, and neither is the response of the
  \<open>Callback\<close> error page.
\<close>

theorem sso_failure_responses_differ_counterexample:
  "response (callback example_modules example_options example_bad_sig_request) =
     [Status 302, SetHeader ''Location'' ''https://app/api/auth/error?error=oAuthCallback'', End None] \<and>
   response (callback example_modules example_options example_stale_nonce_request) =
     [CookieSet ''next-auth.nonce-hash'' (JStr [])
        [(''maxAge'', JNum (- 1)), (''httpOnly'', JBool True), (''sameSite'', JStr ''lax''),
         (''path'', JStr ''/''), (''secure'', JBool True)],
      Status 302, SetHeader ''Location'' ''https://app/api/auth/error?error=oAuthCallback'', End None] \<and>
   response (callback example_modules example_options example_bad_sig_request) \<noteq>
     response (callback example_modules example_options example_stale_nonce_request) \<and>
   response (callback example_modules example_options example_bad_sig_request) \<noteq>
     response (redirect (error_page example_options ''Callback''))"
  by (simp add: example_bad_sig_run example_stale_nonce_run response_def redirect_def error_page_def
      example_options_fields)

theorem sso_failures_share_redirect_witness:
  "map_of (providers example_options) (providerName example_options) = Some example_discourse \<and>
   provider_type example_discourse = ''discourse'' \<and>
   map_of (req_query example_bad_sig_request) ''sso'' = Some example_sso \<and>
   map_of (req_query example_bad_sig_request) ''sig'' = Some (corrupt example_sig) \<and>
   example_sso \<noteq> [] \<and> corrupt example_sig \<noteq> [] \<and> decodeURIComponent example_sso = Inr example_sso \<and>
   corrupt example_sig \<noteq> hex256 (hmac example_modules (provider_secret example_discourse) example_sso) \<and>
   callback example_modules example_options example_bad_sig_request =
     ([Hmac example_sso, LogError ''CALLBACK_OAUTH_ERROR'', Status 302,
       SetHeader ''Location'' (baseUrl example_options @ ''/error?error=oAuthCallback''), End None, Done],
      None) \<and>
   map_of (req_query example_stale_nonce_request) ''sig'' =
     Some (hex256 (hmac example_modules (provider_secret example_discourse) example_sso)) \<and>
   obj_get (sso_decode example_sso) ''nonce'' = JStr ''abc123'' \<and>
   req_cookies example_stale_nonce_request = Some [(''next-auth.nonce-hash'', ''a-stale-binding'')] \<and>
   callback example_modules example_options example_stale_nonce_request =
     ([Hmac example_sso, Decode example_sso, Hmac ''abc123'',
       CookieSet (cookie_name (cookies_nonceHash example_options)) (JStr [])
         (spread [(''maxAge'', JNum (- 1))] (cookie_options (cookies_nonceHash example_options))),
       LogError ''CALLBACK_OAUTH_ERROR'', Status 302,
       SetHeader ''Location'' (baseUrl example_options @ ''/error?error=oAuthCallback''), End None, Done],
      None)"
proof -
  let ?h = "hex256 (hmac example_modules (provider_secret example_discourse) example_sso)"
  have q1: "map_of (req_query example_bad_sig_request) ''sso'' = Some example_sso"
    and q2: "map_of (req_query example_bad_sig_request) ''sig'' = Some (corrupt example_sig)"
    by (simp_all add: example_bad_sig_request_def example_sso_request_def)
  have eq: "example_sig = ?h"
    by (simp add: example_sig_def example_modules_def example_discourse_def)
  have ne: "corrupt example_sig \<noteq> ?h"
    using corrupt_differs [OF example_sig_nonempty] eq by simp
  have r1: "map_of (req_query example_stale_nonce_request) ''sso'' = Some example_sso"
    and r2: "map_of (req_query example_stale_nonce_request) ''sig'' = Some ?h"
    and c: "req_cookies example_stale_nonce_request = Some [(''next-auth.nonce-hash'', ''a-stale-binding'')]"
    by (simp_all add: example_stale_nonce_request_def example_sso_request_def eq [symmetric])
  have n: "obj_get (sso_decode example_sso) ''nonce'' = JStr ''abc123''"
    by (simp add: example_sso_decoded obj_get_def)
  have m: "map_of [(''next-auth.nonce-hash'', ''a-stale-binding'')]
                 (cookie_name (cookies_nonceHash example_options)) \<noteq>
               Some (hex256 (hmac example_modules (provider_secret example_discourse) ''abc123''))"
    by (simp add: example_options_fields not_hex256)
  note t1 = sso_failures_share_redirect [OF example_lookup example_type q1 q2 example_sso_nonempty
      corrupt_nonempty [OF example_sig_nonempty] example_sso_plain, of example_modules]
  note t2 = sso_failures_share_redirect [OF example_lookup example_type r1 r2 example_sso_nonempty
      hex256_nonempty example_sso_plain, of example_modules]
  from t1 ne have a: "callback example_modules example_options example_bad_sig_request =
     ([Hmac example_sso, LogError ''CALLBACK_OAUTH_ERROR'', Status 302,
       SetHeader ''Location'' (baseUrl example_options @ ''/error?error=oAuthCallback''), End None, Done],
      None)" by blast
  from t2 n c m have b: "callback example_modules example_options example_stale_nonce_request =
     ([Hmac example_sso, Decode example_sso, Hmac ''abc123'',
       CookieSet (cookie_name (cookies_nonceHash example_options)) (JStr [])
         (spread [(''maxAge'', JNum (- 1))] (cookie_options (cookies_nonceHash example_options))),
       LogError ''CALLBACK_OAUTH_ERROR'', Status 302,
       SetHeader ''Location'' (baseUrl example_options @ ''/error?error=oAuthCallback''), End None, Done],
      None)" by blast
  from a b example_lookup example_type q1 q2 example_sso_nonempty corrupt_nonempty [OF example_sig_nonempty]
    example_sso_plain ne r2 n c
  show ?thesis by blast
qed

text \<open>
  The nonce check, whenever it is reached with a nonce and with cookies: the cookie
  is removed first, and only the binding of this nonce lets the run go on.
\<close>

lemma nonce_cookie_removed_first:
  assumes "obj_get ret ''nonce'' = JStr n" and "req_cookies req = Some cs"
  shows "\<exists>rest. discourse_nonce w opts p req st ret =
           emit [Hmac n,
                 CookieSet (cookie_name (cookies_nonceHash opts)) (JStr [])
                   (spread [(''maxAge'', JNum (- 1))] (cookie_options (cookies_nonceHash opts)))]
             rest"
proof (cases "map_of cs (cookie_name (cookies_nonceHash opts)) =
              Some (hex256 (hmac w (provider_secret p) n))")
  case True
  from discourse_nonce_match [OF assms True] show ?thesis by blast
next
  case False
  have "discourse_nonce w opts p req st ret =
           emit [Hmac n,
                 CookieSet (cookie_name (cookies_nonceHash opts)) (JStr [])
                   (spread [(''maxAge'', JNum (- 1))] (cookie_options (cookies_nonceHash opts)))]
             (emit [LogError ''CALLBACK_OAUTH_ERROR''] (redirect (error_page opts ''oAuthCallback'')))"
    by (simp add: discourse_nonce_mismatch [OF assms False] emit_def redirect_def error_page_def)
  then show ?thesis by blast
qed

lemma maxAge_is_minus_one:
  "''maxAge'' \<notin> fst ` set os \<Longrightarrow> map_of (spread [(''maxAge'', JNum (- 1))] os) ''maxAge'' = Some (JNum (- 1))"
proof -
  have "\<And>acc. ''maxAge'' \<notin> fst ` set os \<Longrightarrow> map_of acc ''maxAge'' = Some (JNum (- 1)) \<Longrightarrow>
          map_of (foldl (\<lambda>acc (k, v). AList.update k v acc) acc os) ''maxAge'' = Some (JNum (- 1))"
    by (induction os) (auto simp: update_conv')
  then show "''maxAge'' \<notin> fst ` set os \<Longrightarrow>
      map_of (spread [(''maxAge'', JNum (- 1))] os) ''maxAge'' = Some (JNum (- 1))"
    by (simp add: spread_def)
qed

text \<open>
  C2 asks that the nonce cookie be removed in every callback whose signature
  verifies, and that an absent nonce hash end in the nonce-mismatch redirect.  For a
  signed payload without a \<open>nonce\<close> field the code does neither:
  \<open>hmac.update(undefined)\<close> throws before the cookie is removed, and nothing
  catches it.
\<close>

theorem payload_without_nonce_throws_before_cookie_removal:
  "callback example_modules example_options example_no_nonce_request =
     ([Hmac example_no_nonce_sso, Decode example_no_nonce_sso], Some TypeError)"
proof -
  have q1: "map_of (req_query example_no_nonce_request) ''sso'' = Some example_no_nonce_sso"
    and q2: "map_of (req_query example_no_nonce_request) ''sig'' =
             Some (hex256 (hmac example_modules (provider_secret example_discourse) example_no_nonce_sso))"
    by (simp_all add: example_no_nonce_request_def example_sso_request_def example_modules_def
        example_discourse_def)
  have ne: "example_no_nonce_sso \<noteq> []" by (simp add: example_no_nonce_sso_def)
  have n: "\<forall>n. obj_get (sso_decode example_no_nonce_sso) ''nonce'' \<noteq> JStr n"
    by (simp add: example_no_nonce_decoded obj_get_def)
  from discourse_good_signature [OF q1 q2 ne example_no_nonce_plain refl] discourse_nonce_absent [OF n]
  show ?thesis
    by (simp add: discourse_entry [OF example_lookup example_type] emit_def)
qed

theorem decode_only_after_verification_witness:
  "map_of (providers example_options) (providerName example_options) = Some example_discourse \<and>
   provider_type example_discourse = ''discourse'' \<and>
   map_of (req_query example_bad_sig_request) ''sso'' = Some example_sso \<and>
   map_of (req_query example_bad_sig_request) ''sig'' = Some (corrupt example_sig) \<and>
   example_sso \<noteq> [] \<and> corrupt example_sig \<noteq> [] \<and> decodeURIComponent example_sso = Inr example_sso \<and>
   corrupt example_sig \<noteq> hex256 (hmac example_modules (provider_secret example_discourse) example_sso) \<and>
   callback example_modules example_options example_bad_sig_request =
     ([Hmac example_sso, LogError ''CALLBACK_OAUTH_ERROR'', Status 302,
       SetHeader ''Location'' (baseUrl example_options @ ''/error?error=oAuthCallback''), End None, Done],
      None) \<and>
   list_ex is_decode (fst (callback example_modules example_options example_stale_nonce_request)) \<and>
   (\<exists>sso d rest.
      map_of (req_query example_stale_nonce_request) ''sso'' = Some sso \<and>
      decodeURIComponent sso = Inr d \<and>
      map_of (req_query example_stale_nonce_request) ''sig'' =
        Some (hex256 (hmac example_modules (provider_secret example_discourse) d)) \<and>
      fst (callback example_modules example_options example_stale_nonce_request) =
        Hmac d # Decode sso # rest \<and>
      \<not> list_ex is_decode rest)"
proof -
  let ?h = "hex256 (hmac example_modules (provider_secret example_discourse) example_sso)"
  have q1: "map_of (req_query example_bad_sig_request) ''sso'' = Some example_sso"
    and q2: "map_of (req_query example_bad_sig_request) ''sig'' = Some (corrupt example_sig)"
    by (simp_all add: example_bad_sig_request_def example_sso_request_def)
  have eq: "example_sig = ?h"
    by (simp add: example_sig_def example_modules_def example_discourse_def)
  have ne: "corrupt example_sig \<noteq> ?h"
    using corrupt_differs [OF example_sig_nonempty] eq by simp
  have d: "list_ex is_decode (fst (callback example_modules example_options example_stale_nonce_request))"
    by (simp add: example_stale_nonce_run)
  note t1 = decode_only_after_verification [OF example_lookup example_type,
      of example_bad_sig_request example_modules]
  note t2 = decode_only_after_verification [OF example_lookup example_type,
      of example_stale_nonce_request example_modules]
  from t1 q1 q2 example_sso_nonempty corrupt_nonempty [OF example_sig_nonempty] example_sso_plain ne
  have a: "callback example_modules example_options example_bad_sig_request =
     ([Hmac example_sso, LogError ''CALLBACK_OAUTH_ERROR'', Status 302,
       SetHeader ''Location'' (baseUrl example_options @ ''/error?error=oAuthCallback''), End None, Done],
      None)" by blast
  from t2 d have b: "\<exists>sso d rest.
      map_of (req_query example_stale_nonce_request) ''sso'' = Some sso \<and>
      decodeURIComponent sso = Inr d \<and>
      map_of (req_query example_stale_nonce_request) ''sig'' =
        Some (hex256 (hmac example_modules (provider_secret example_discourse) d)) \<and>
      fst (callback example_modules example_options example_stale_nonce_request) =
        Hmac d # Decode sso # rest \<and>
      \<not> list_ex is_decode rest" by blast
  from a b d example_lookup example_type q1 q2 example_sso_nonempty
    corrupt_nonempty [OF example_sig_nonempty] example_sso_plain ne
  show ?thesis by blast
qed

section \<open>The credentials branch: examples, and an error that escapes\<close>

lemma example_credentials_lookup:
  "map_of (providers example_credentials_options) (providerName example_credentials_options) =
     Some example_credentials_provider"
  by (simp add: example_credentials_options_def example_options_def example_providers_def
      example_credentials_provider_def)

theorem credentials_error_discrimination_witness:
  "map_of (providers example_credentials_options) (providerName example_credentials_options) =
     Some example_credentials_provider \<and>
   provider_type example_credentials_provider = ''credentials'' \<and>
   req_method example_boom_request = ''POST'' \<and> req_method example_wrong_password_request = ''POST'' \<and>
   session_jwt example_credentials_options \<and>
   provider_authorize example_credentials_provider = Some example_authorize \<and>
   example_authorize (req_body example_boom_request) = Inl (Error ''Error'') \<and>
   callback example_modules example_credentials_options example_boom_request =
     ([Call Authorize [JObj [(''password'', JStr ''boom'')]], Status 302,
       SetHeader ''Location'' ''https://app/api/auth/error?error=Configuration'', End None, Done],
      None) \<and>
   example_authorize (req_body example_wrong_password_request) = Inr JNull \<and> \<not> truthy JNull \<and>
   callback example_modules example_credentials_options example_wrong_password_request =
     ([Call Authorize [JObj [(''password'', JStr ''guess'')]], Status 302,
       SetHeader ''Location''
         ''https://app/api/auth/error?error=CredentialsSignin&provider=my%20login'',
       End None, Done],
      None)"
proof -
  have t: "provider_type example_credentials_provider = ''credentials''"
    and a: "provider_authorize example_credentials_provider = Some example_authorize"
    and i: "provider_id example_credentials_provider = ''my login''"
    by (simp_all add: example_credentials_provider_def)
  have m1: "req_method example_boom_request = ''POST''"
    and m2: "req_method example_wrong_password_request = ''POST''"
    and b1: "req_body example_boom_request = JObj [(''password'', JStr ''boom'')]"
    and b2: "req_body example_wrong_password_request = JObj [(''password'', JStr ''guess'')]"
    by (simp_all add: example_boom_request_def example_wrong_password_request_def
        example_credentials_request_def)
  have j: "session_jwt example_credentials_options"
    and u: "baseUrl example_credentials_options = ''https://app/api/auth''"
    by (simp_all add: example_credentials_options_def example_options_def)
  have r1: "example_authorize (req_body example_boom_request) = Inl (Error ''Error'')"
    by (simp add: b1 example_authorize_def)
  have r2: "example_authorize (req_body example_wrong_password_request) = Inr JNull"
    by (simp add: b2 example_authorize_def)
  have e: "encodeURIComponent ''my login'' = ''my%20login''"
    by code_simp
  note t1 = credentials_error_discrimination [OF example_credentials_lookup t m1 j a, of example_modules]
  note t2 = credentials_error_discrimination [OF example_credentials_lookup t m2 j a, of example_modules]
  from t1 r1 have c1: "callback example_modules example_credentials_options example_boom_request =
     ([Call Authorize [JObj [(''password'', JStr ''boom'')]], Status 302,
       SetHeader ''Location'' ''https://app/api/auth/error?error=Configuration'', End None, Done],
      None)"
    by (simp add: b1 u)
  from t2 r2 have c2: "callback example_modules example_credentials_options example_wrong_password_request =
     ([Call Authorize [JObj [(''password'', JStr ''guess'')]], Status 302,
       SetHeader ''Location''
         ''https://app/api/auth/error?error=CredentialsSignin&provider=my%20login'',
       End None, Done],
      None)"
    by (simp add: b2 u i e)
  from c1 c2 example_credentials_lookup t m1 m2 j a r1 r2 show ?thesis by simp
qed

text \<open>
  C3 asks that every failure of the pipeline be caught and answered with a redirect.
  The oauth and email branches do that for every thrown value that has a \<open>name\<close>
  to read, an \<open>Error\<close> object above all (\<open>oauth_callback_contains_errors\<close>,
  \<open>email_callback_contains_errors\<close> below); the credentials and discourse branches
  have no \<open>try\<close> around their hooks.  Here the \<open>signin\<close> hook of a credentials
  callback throws: the run ends with the error, and no response was written.
\<close>

theorem signin_hook_throw_escapes_credentials_branch:
  "callback example_modules example_failing_signin_options example_credentials_request =
     ([Call Authorize [JObj [(''password'', JStr ''hunter2'')]],
       Call Signin [JObj [(''id'', JNum 1), (''name'', JStr ''ann'')],
                    JObj [(''id'', JStr ''my login''), (''type'', JStr ''credentials'')],
                    JObj [(''password'', JStr ''hunter2'')]]],
      Some (Error ''DatabaseError''))"
  by (simp add: callback_def example_failing_signin_options_def example_credentials_options_def
      example_options_def example_providers_def example_discourse_def example_credentials_request_def
      credentials_callback_def credentials_signin_def example_authorize_def await_def emit_def
      throw_def)

lemma catch_contains:
  "(\<And>e. snd body = Some e \<Longrightarrow> snd (handler e) = None) \<Longrightarrow> snd (catch body handler) = None"
  by (cases "snd body") (simp_all add: catch_def emit_def)

lemma oauth_catch_named: "exn_name e = Inr n \<Longrightarrow> snd (oauth_catch opts e) = None"
  by (simp add: oauth_catch_def emit_def redirect_def)

lemma email_catch_named: "exn_name e = Inr n \<Longrightarrow> snd (email_catch opts e) = None"
  by (simp add: email_catch_def redirect_def)

lemma oauth_callback_contains_errors:
  assumes "\<And>r e. oAuthCallback w req = Inr r \<Longrightarrow> snd (oauth_body w opts st r) = Some e \<Longrightarrow>
                 \<exists>n. exn_name e = Inr n"
  shows "snd (oauth_callback w opts req st) = None"
proof (cases "oAuthCallback w req")
  case (Inl e)
  then show ?thesis by (simp add: oauth_callback_def emit_def redirect_def)
next
  case (Inr r)
  have "snd (catch (oauth_body w opts st r) (oauth_catch opts)) = None"
  proof (rule catch_contains)
    fix e assume "snd (oauth_body w opts st r) = Some e"
    from assms [OF Inr this] obtain n where "exn_name e = Inr n" ..
    then show "snd (oauth_catch opts e) = None" by (rule oauth_catch_named)
  qed
  with Inr show ?thesis by (simp add: oauth_callback_def emit_def)
qed

lemma email_callback_contains_errors:
  assumes "\<And>e. snd (email_body w opts p req st) = Some e \<Longrightarrow> \<exists>n. exn_name e = Inr n"
  shows "snd (email_callback w opts p req st) = None"
  unfolding email_callback_def
proof (rule catch_contains)
  fix e assume "snd (email_body w opts p req st) = Some e"
  from assms [OF this] obtain n where "exn_name e = Inr n" ..
  then show "snd (email_catch opts e) = None" by (rule email_catch_named)
qed

text \<open>
  A hook that rejects with \<open>null\<close> or \<open>undefined\<close> is the exception: reading
  \<open>error.name\<close> throws inside the \<open>catch\<close>, and a \<open>TypeError\<close> leaves the branch.
\<close>

lemma email_callback_nameless_error:
  "snd (email_body w opts p req st) = Some (Thrown JNull) \<Longrightarrow>
   snd (email_callback w opts p req st) = Some TypeError"
  by (simp add: email_callback_def catch_def email_catch_def emit_def throw_def)

section \<open>The email branch: the token is deleted first\<close>

lemma catch_prefix: "\<exists>r. fst (catch body handler) = fst body @ r"
  by (cases "snd body") (simp_all add: catch_def emit_def)

lemma catch_returned: "snd body = None \<Longrightarrow> catch body handler = body"
  by (simp add: catch_def)

lemma email_entry:
  assumes "map_of (providers opts) (providerName opts) = Some p" and "provider_type p = ''email''"
  shows "callback w opts req =
         email_callback w opts p req
           (case req_cookies req of None \<Rightarrow> JNull
            | Some cs \<Rightarrow> of_opt (map_of cs (cookie_name (cookies_sessionToken opts))))"
  using assms by (simp add: callback_def)

text \<open>
  C6.  In an email callback whose adapter resolved: when the lookup of (email, token)
  returns null (or any falsy value), the run is the redirect to
  \<open>{baseUrl}/error?error=Verification\<close> after the two adapter calls, so the deletion
  is never called; when it returns a record, the deletion is the very next call of
  the run, before the user lookup, the \<open>signin\<close> hook, \<open>callbackHandler\<close> and the
  session cookie, whatever happens later.
\<close>

theorem email_token_single_use:
  assumes "map_of (providers opts) (providerName opts) = Some p"
    and "provider_type p = ''email''"
    and "adapter opts = Some (Inr fns)"
    and "getVerificationRequest fns (of_opt (map_of (req_query req) ''email''))
           (of_opt (map_of (req_query req) ''token'')) = Inr invite"
  shows "(\<not> truthy invite \<longrightarrow>
            callback w opts req =
              ([Call GetAdapter [],
                Call GetVerificationRequest
                  [of_opt (map_of (req_query req) ''email''), of_opt (map_of (req_query req) ''token'')],
                Status 302, SetHeader ''Location'' (baseUrl opts @ ''/error?error=Verification''),
                End None, Done], None)) \<and>
         (truthy invite \<longrightarrow>
            (\<exists>rest. fst (callback w opts req) =
               [Call GetAdapter [],
                Call GetVerificationRequest
                  [of_opt (map_of (req_query req) ''email''), of_opt (map_of (req_query req) ''token'')],
                Call DeleteVerificationRequest
                  [of_opt (map_of (req_query req) ''email''), of_opt (map_of (req_query req) ''token'')]]
               @ rest))"
proof (intro conjI impI)
  let ?st = "case req_cookies req of None \<Rightarrow> JNull
            | Some cs \<Rightarrow> of_opt (map_of cs (cookie_name (cookies_sessionToken opts)))"
  assume f: "\<not> truthy invite"
  have b: "email_body w opts p req ?st =
              ([Call GetAdapter [],
                Call GetVerificationRequest
                  [of_opt (map_of (req_query req) ''email''), of_opt (map_of (req_query req) ''token'')],
                Status 302, SetHeader ''Location'' (baseUrl opts @ ''/error?error=Verification''),
                End None, Done], None)"
    using assms(3,4) f
    by (simp add: email_body_def await_def emit_def redirect_def error_page_def Let_def)
  then have "snd (email_body w opts p req ?st) = None" by simp
  from catch_returned [OF this] b
  show "callback w opts req =
              ([Call GetAdapter [],
                Call GetVerificationRequest
                  [of_opt (map_of (req_query req) ''email''), of_opt (map_of (req_query req) ''token'')],
                Status 302, SetHeader ''Location'' (baseUrl opts @ ''/error?error=Verification''),
                End None, Done], None)"
    by (simp add: email_entry [OF assms(1,2)] email_callback_def)
next
  let ?st = "case req_cookies req of None \<Rightarrow> JNull
            | Some cs \<Rightarrow> of_opt (map_of cs (cookie_name (cookies_sessionToken opts)))"
  assume t: "truthy invite"
  have "\<exists>r. fst (email_body w opts p req ?st) =
               [Call GetAdapter [],
                Call GetVerificationRequest
                  [of_opt (map_of (req_query req) ''email''), of_opt (map_of (req_query req) ''token'')],
                Call DeleteVerificationRequest
                  [of_opt (map_of (req_query req) ''email''), of_opt (map_of (req_query req) ''token'')]]
               @ r"
    using assms(3,4) t
    by (simp add: email_body_def await_def emit_def Let_def)
  then obtain r where r: "fst (email_body w opts p req ?st) =
               [Call GetAdapter [],
                Call GetVerificationRequest
                  [of_opt (map_of (req_query req) ''email''), of_opt (map_of (req_query req) ''token'')],
                Call DeleteVerificationRequest
                  [of_opt (map_of (req_query req) ''email''), of_opt (map_of (req_query req) ''token'')]]
               @ r" by blast
  from catch_prefix [of "email_body w opts p req ?st" "email_catch opts"] obtain r'
    where "fst (catch (email_body w opts p req ?st) (email_catch opts)) =
           fst (email_body w opts p req ?st) @ r'" by blast
  with r show "\<exists>rest. fst (callback w opts req) =
               [Call GetAdapter [],
                Call GetVerificationRequest
                  [of_opt (map_of (req_query req) ''email''), of_opt (map_of (req_query req) ''token'')],
                Call DeleteVerificationRequest
                  [of_opt (map_of (req_query req) ''email''), of_opt (map_of (req_query req) ''token'')]]
               @ rest"
    by (simp add: email_entry [OF assms(1,2)] email_callback_def)
qed

lemma example_email_lookup:
  "map_of (providers example_email_options) (providerName example_email_options) =
     Some example_email_provider"
  by (simp add: example_email_options_def example_options_def example_providers_def
      example_email_provider_def)

theorem email_token_single_use_witness:
  "map_of (providers example_email_options) (providerName example_email_options) =
     Some example_email_provider \<and>
   provider_type example_email_provider = ''email'' \<and>
   adapter example_email_options = Some (Inr example_adapter) \<and>
   getVerificationRequest example_adapter (JStr ''a@b.com'') (JStr ''expired'') = Inr JNull \<and>
   \<not> truthy JNull \<and>
   callback example_modules example_email_options example_bad_token_request =
     ([Call GetAdapter [], Call GetVerificationRequest [JStr ''a@b.com'', JStr ''expired''],
       Status 302, SetHeader ''Location'' ''https://app/api/auth/error?error=Verification'',
       End None, Done], None) \<and>
   getVerificationRequest example_adapter (JStr ''a@b.com'') (JStr ''tok'') =
     Inr (JObj [(''identifier'', JStr ''a@b.com'')]) \<and>
   truthy (JObj [(''identifier'', JStr ''a@b.com'')]) \<and>
   (\<exists>rest. fst (callback example_modules example_email_options example_email_request) =
      [Call GetAdapter [], Call GetVerificationRequest [JStr ''a@b.com'', JStr ''tok''],
       Call DeleteVerificationRequest [JStr ''a@b.com'', JStr ''tok'']] @ rest)"
proof -
  have t: "provider_type example_email_provider = ''email''"
    by (simp add: example_email_provider_def)
  have a: "adapter example_email_options = Some (Inr example_adapter)"
    and u: "baseUrl example_email_options = ''https://app/api/auth''"
    by (simp_all add: example_email_options_def example_options_def)
  have q1: "of_opt (map_of (req_query example_bad_token_request) ''email'') = JStr ''a@b.com''"
    and q2: "of_opt (map_of (req_query example_bad_token_request) ''token'') = JStr ''expired''"
    and q3: "of_opt (map_of (req_query example_email_request) ''email'') = JStr ''a@b.com''"
    and q4: "of_opt (map_of (req_query example_email_request) ''token'') = JStr ''tok''"
    by (simp_all add: example_bad_token_request_def example_email_request_def of_opt_def)
  have g1: "getVerificationRequest example_adapter (JStr ''a@b.com'') (JStr ''expired'') = Inr JNull"
    and g2: "getVerificationRequest example_adapter (JStr ''a@b.com'') (JStr ''tok'') =
             Inr (JObj [(''identifier'', JStr ''a@b.com'')])"
    by (simp_all add: example_adapter_def)
  have g1': "getVerificationRequest example_adapter
               (of_opt (map_of (req_query example_bad_token_request) ''email''))
               (of_opt (map_of (req_query example_bad_token_request) ''token'')) = Inr JNull"
    by (simp add: q1 q2 g1)
  have g2': "getVerificationRequest example_adapter
               (of_opt (map_of (req_query example_email_request) ''email''))
               (of_opt (map_of (req_query example_email_request) ''token'')) =
             Inr (JObj [(''identifier'', JStr ''a@b.com'')])"
    by (simp add: q3 q4 g2)
  note t1 = email_token_single_use [OF example_email_lookup t a g1', of example_modules]
  note t2 = email_token_single_use [OF example_email_lookup t a g2', of example_modules]
  from t1 have c1: "callback example_modules example_email_options example_bad_token_request =
     ([Call GetAdapter [], Call GetVerificationRequest [JStr ''a@b.com'', JStr ''expired''],
       Status 302, SetHeader ''Location'' ''https://app/api/auth/error?error=Verification'',
       End None, Done], None)"
    by (simp add: q1 q2 u)
  from t2 have c2: "\<exists>rest. fst (callback example_modules example_email_options example_email_request) =
      [Call GetAdapter [], Call GetVerificationRequest [JStr ''a@b.com'', JStr ''tok''],
       Call DeleteVerificationRequest [JStr ''a@b.com'', JStr ''tok'']] @ rest"
    by (simp add: q3 q4)
  from c1 c2 example_email_lookup t a g1 g2 show ?thesis by simp
qed

section \<open>The new-user page\<close>

lemma example_sso_reaches_signin:
  "callback example_modules example_options example_sso_request =
     emit [Hmac example_sso, Decode example_sso, Hmac ''abc123'',
           CookieSet ''next-auth.nonce-hash'' (JStr [])
             [(''maxAge'', JNum (- 1)), (''httpOnly'', JBool True), (''sameSite'', JStr ''lax''),
              (''path'', JStr ''/''), (''secure'', JBool True)]]
       (discourse_signin example_modules example_options JUndefined
          (discourse_profile (sso_decode example_sso))
          (discourse_account example_discourse (sso_decode example_sso)))"
proof -
  have q1: "map_of (req_query example_sso_request) ''sso'' = Some example_sso"
    and q2: "map_of (req_query example_sso_request) ''sig'' = Some example_sig"
    and c: "req_cookies example_sso_request = Some [(''next-auth.nonce-hash'', example_nonce_hash)]"
    by (simp_all add: example_sso_request_def)
  have eq: "example_sig = hex256 (hmac example_modules (provider_secret example_discourse) example_sso)"
    by (simp add: example_sig_def example_modules_def example_discourse_def)
  have n: "obj_get (sso_decode example_sso) ''nonce'' = JStr ''abc123''"
    by (simp add: example_sso_decoded obj_get_def)
  have m: "map_of [(''next-auth.nonce-hash'', example_nonce_hash)]
             (cookie_name (cookies_nonceHash example_options)) =
           Some (hex256 (hmac example_modules (provider_secret example_discourse) ''abc123''))"
    by (simp add: example_options_fields example_nonce_hash_def example_modules_def
        example_discourse_def)
  have f: "discourse_fields example_modules example_options example_discourse JUndefined
             (sso_decode example_sso) =
           discourse_signin example_modules example_options JUndefined
             (discourse_profile (sso_decode example_sso))
             (discourse_account example_discourse (sso_decode example_sso))"
    by (simp add: discourse_fields_def example_sso_decoded obj_get_def)
  from discourse_good_signature [OF q1 q2 example_sso_nonempty example_sso_plain eq]
    discourse_nonce_match [OF n c m]
  show ?thesis
    by (simp add: discourse_entry [OF example_lookup example_type] emit_def example_options_fields
        example_spread c of_opt_def f)
qed

lemma locations_emit: "locations (emit es r) = locations (es, None) @ locations r"
  by (simp add: locations_def emit_def List.map_filter_def)

lemma locations_await:
  "locations (await h args (Inr v) k) = locations (k v)"
  by (simp add: locations_def await_def emit_def List.map_filter_def)

lemma locations_redirect: "locations (redirect l) = [l]"
  by (simp add: locations_def redirect_def List.map_filter_def)

text \<open>
  The oauth branch, when every step succeeds with JSON Web Tokens and an expiry
  date a \<open>Date\<close> can hold, for a first-time user and a configured new-user page: the
  session cookie is set, then the event is dispatched, then the browser is sent to
  the new-user page.
\<close>

lemma oauth_new_user_redirect:
  assumes "\<not> truthy error" and "truthy profile"
    and "callbacks_signin opts profile account raw = Inr v" and "v \<noteq> JBool False"
    and "callbackHandler w st profile account = Inr h" and "session_jwt opts"
    and "callbacks_jwt opts
           [JObj [(''user'', si_user h), (''account'', account), (''isNewUser'', si_isNewUser h)], raw] =
         Inr jwtPayload"
    and "jwt_encode opts
           (JObj [(''secret'', jwt_secret opts), (''token'', jwtPayload),
                  (''maxAge'', JNum (session_maxAge opts))]) = Inr token"
    and "cookie_expires w opts = Inr expires"
    and "dispatchEvent w
           (JObj [(''user'', si_user h), (''account'', account), (''isNewUser'', si_isNewUser h)]) =
         Inr u"
    and "truthy (si_isNewUser h)" and "pages_newUser opts = Some page" and "page \<noteq> []"
  shows "oauth_body w opts st (error, profile, account, raw) =
           ([LogDebug ''OAUTH_CALLBACK_RESPONSE'', Call Signin [profile, account, raw],
             Call CallbackHandler [st, profile, account],
             Call Jwt [JObj [(''user'', si_user h), (''account'', account),
                             (''isNewUser'', si_isNewUser h)], raw],
             Call JwtEncode [JObj [(''secret'', jwt_secret opts), (''token'', jwtPayload),
                                   (''maxAge'', JNum (session_maxAge opts))]],
             CookieSet (cookie_name (cookies_sessionToken opts)) token
               (spread [(''expires'', JStr expires)] (cookie_options (cookies_sessionToken opts))),
             Call DispatchEvent [JObj [(''user'', si_user h), (''account'', account),
                                       (''isNewUser'', si_isNewUser h)]],
             Status 302, SetHeader ''Location'' page, End None, Done], None)"
  using assms
  by (simp add: oauth_body_def issue_session_def dispatch_signin_def new_user_or_callback_def
      await_def emit_def redirect_def of_opt_def Let_def)

text \<open>
  C8 asks, for every provider kind, that a first-time user be sent to the new-user
  page when one is configured.  The oauth and email branches do (lines 208 and 301);
  the discourse branch reads \<open>isNewUser\<close> from \<open>callbackHandler\<close> and passes it to
  the token and to the event, but redirects to \<open>callbackUrl || site\<close> all the same
  (line 142).  With the same configuration and a first-time user, the discourse
  callback goes to the callback URL and the oauth callback to the new-user page.
\<close>

theorem discourse_ignores_new_user_page:
  "pages_newUser example_options = Some ''https://app/welcome'' \<and>
   callbackHandler example_modules JUndefined (discourse_profile (sso_decode example_sso))
       (discourse_account example_discourse (sso_decode example_sso)) =
     Inr \<lparr>si_user = discourse_profile (sso_decode example_sso),
          si_session = JObj [(''sessionToken'', JStr ''s1''), (''expires'', JNull)],
          si_isNewUser = JBool True\<rparr> \<and>
   snd (callback example_modules example_options example_sso_request) = None \<and>
   locations (callback example_modules example_options example_sso_request) = [''https://app/x''] \<and>
   locations (callback example_modules example_github_options example_sso_request) =
     [''https://app/welcome'']"
proof -
  have a: "locations (callback example_modules example_options example_sso_request) = [''https://app/x'']"
    unfolding example_sso_reaches_signin
    by (simp add: locations_emit locations_await locations_redirect discourse_signin_def
        issue_session_def dispatch_signin_def example_options_def example_modules_def
        callback_or_site_def cookie_expires_def Let_def)
      (simp add: locations_def List.map_filter_def)
  have b: "snd (callback example_modules example_options example_sso_request) = None"
    unfolding example_sso_reaches_signin
    by (simp add: discourse_signin_def issue_session_def dispatch_signin_def example_options_def
        example_modules_def cookie_expires_def await_def emit_def redirect_def Let_def)
  have c: "locations (callback example_modules example_github_options example_sso_request) =
     [''https://app/welcome'']"
    by (simp add: callback_def example_github_options_def example_options_def example_providers_def
        example_discourse_def oauth_callback_def oauth_body_def example_modules_def catch_def
        issue_session_def dispatch_signin_def new_user_or_callback_def cookie_expires_def
        await_def emit_def redirect_def of_opt_def locations_def List.map_filter_def Let_def)
  from a b c show ?thesis
    by (simp add: example_options_fields example_modules_def)
qed

section \<open>The \<open>signin\<close> hook\<close>

text \<open>
  What the branches share once the hook has answered.  \<open>issue_session\<close> with JSON
  Web Tokens, when the \<open>jwt\<close> hook and \<open>jwt.encode\<close> resolve and the expiry date is
  one a \<open>Date\<close> can hold; and with sessions kept in the database, when
  \<open>callbackHandler\<close> returned a session object.
\<close>

lemma issue_session_jwt:
  assumes "session_jwt opts"
    and "callbacks_jwt opts
           (JObj [(''user'', si_user h), (''account'', account), (''isNewUser'', si_isNewUser h)] #
            extra) = Inr jp"
    and "jwt_encode opts
           (JObj [(''secret'', jwt_secret opts), (''token'', jp),
                  (''maxAge'', JNum (session_maxAge opts))]) = Inr tok"
    and "cookie_expires w opts = Inr date"
  shows "issue_session w opts h account extra rest =
           emit [Call Jwt (JObj [(''user'', si_user h), (''account'', account),
                                 (''isNewUser'', si_isNewUser h)] # extra),
                 Call JwtEncode [JObj [(''secret'', jwt_secret opts), (''token'', jp),
                                       (''maxAge'', JNum (session_maxAge opts))]],
                 CookieSet (cookie_name (cookies_sessionToken opts)) tok
                   (spread [(''expires'', JStr date)] (cookie_options (cookies_sessionToken opts)))]
             rest"
  using assms by (simp add: issue_session_def await_def emit_def Let_def)

lemma issue_session_database:
  assumes "\<not> session_jwt opts"
    and "js_get (si_session h) ''sessionToken'' = Inr stok"
    and "js_get (si_session h) ''expires'' = Inr ex"
  shows "issue_session w opts h account extra rest =
           emit [CookieSet (cookie_name (cookies_sessionToken opts)) stok
                   (spread [(''expires'', js_or ex JNull)]
                      (cookie_options (cookies_sessionToken opts)))]
             rest"
  using assms by (simp add: issue_session_def)

text \<open>
  With an expiry date beyond what a \<open>Date\<close> can hold, \<open>toISOString\<close> throws after the
  token was encoded: no cookie is set and the error leaves \<open>issue_session\<close>.
\<close>

lemma cookie_expires_out_of_range:
  "8640000000000000 < now_ms w + session_maxAge opts * 1000 \<Longrightarrow>
   cookie_expires w opts = Inl RangeError"
  by (simp add: cookie_expires_def Let_def)

lemma issue_session_invalid_date:
  assumes "session_jwt opts"
    and "callbacks_jwt opts
           (JObj [(''user'', si_user h), (''account'', account), (''isNewUser'', si_isNewUser h)] #
            extra) = Inr jp"
    and "jwt_encode opts
           (JObj [(''secret'', jwt_secret opts), (''token'', jp),
                  (''maxAge'', JNum (session_maxAge opts))]) = Inr tok"
    and "cookie_expires w opts = Inl e"
  shows "issue_session w opts h account extra rest =
           ([Call Jwt (JObj [(''user'', si_user h), (''account'', account),
                             (''isNewUser'', si_isNewUser h)] # extra),
             Call JwtEncode [JObj [(''secret'', jwt_secret opts), (''token'', jp),
                                   (''maxAge'', JNum (session_maxAge opts))]]], Some e)"
  using assms by (simp add: issue_session_def await_def emit_def throw_def Let_def)

lemma dispatch_signin_resolved:
  "dispatchEvent w
     (JObj [(''user'', si_user h), (''account'', account), (''isNewUser'', si_isNewUser h)]) =
   Inr u \<Longrightarrow>
   dispatch_signin w h account rest =
     emit [Call DispatchEvent [JObj [(''user'', si_user h), (''account'', account),
                                     (''isNewUser'', si_isNewUser h)]]] rest"
  by (simp add: dispatch_signin_def await_def Let_def)

lemma new_user_or_callback_location:
  "new_user_or_callback opts h =
     redirect (case pages_newUser opts of
                 None \<Rightarrow> callback_or_site opts
               | Some page \<Rightarrow>
                   if truthy (si_isNewUser h) \<and> page \<noteq> [] then page else callback_or_site opts)"
  by (simp add: new_user_or_callback_def of_opt_def split: option.splits)

text \<open>A discourse callback whose payload passes every check arrives at the hook.\<close>

lemma discourse_reaches_signin:
  assumes "map_of (providers opts) (providerName opts) = Some p"
    and "provider_type p = ''discourse''"
    and "map_of (req_query req) ''sso'' = Some sso" and "map_of (req_query req) ''sig'' = Some sig"
    and "sso \<noteq> []" and "decodeURIComponent sso = Inr d"
    and "sig = hex256 (hmac w (provider_secret p) d)"
    and "obj_get (sso_decode sso) ''nonce'' = JStr n" and "req_cookies req = Some cs"
    and "map_of cs (cookie_name (cookies_nonceHash opts)) =
         Some (hex256 (hmac w (provider_secret p) n))"
    and "truthy (obj_get (sso_decode sso) ''external_id'')"
    and "truthy (obj_get (sso_decode sso) ''email'')"
    and "truthy (obj_get (sso_decode sso) ''username'')"
  shows "callback w opts req =
           emit [Hmac d, Decode sso, Hmac n,
                 CookieSet (cookie_name (cookies_nonceHash opts)) (JStr [])
                   (spread [(''maxAge'', JNum (- 1))] (cookie_options (cookies_nonceHash opts)))]
             (discourse_signin w opts (of_opt (map_of cs (cookie_name (cookies_sessionToken opts))))
                (discourse_profile (sso_decode sso)) (discourse_account p (sso_decode sso)))"
proof -
  have f: "discourse_fields w opts p st (sso_decode sso) =
           discourse_signin w opts st (discourse_profile (sso_decode sso))
             (discourse_account p (sso_decode sso))" for st
    using assms(11-13) by (simp add: discourse_fields_def)
  from discourse_good_signature [OF assms(3-7)] discourse_nonce_match [OF assms(8-10)]
  show ?thesis
    by (simp add: discourse_entry [OF assms(1,2)] assms(9) f emit_def)
qed

text \<open>
  C9.  In each of the four branches, when the request has reached the \<open>signin\<close>
  hook and the hook has returned \<open>v\<close>:

  \<^item> if \<open>v\<close> is the boolean \<open>false\<close>, the hook call is followed by the redirect to
    the AccessDenied error page and nothing else: no \<open>callbackHandler\<close>, no token,
    no cookie, no event;

  \<^item> if \<open>v\<close> is any other value (\<open>undefined\<close>, \<open>null\<close>, \<open>0\<close>, the empty string,
    ...), the sign-in goes on: when the later steps succeed (\<open>callbackHandler\<close>,
    the \<open>jwt\<close> hook, \<open>jwt.encode\<close> and an expiry date a \<open>Date\<close> can hold with JSON
    Web Tokens, a session object with sessions in the database, \<open>dispatchEvent\<close>),
    the user is signed in by \<open>callbackHandler\<close> (the credentials branch has no such
    call), the session cookie is set, the event is dispatched and the browser is
    sent on, to the callback URL or, in the oauth and email branches, to the
    new-user page of a first-time user.

  The runs are the complete runs of the handler, from the first effect to the last.
\<close>

theorem signin_hook_denies_only_false:
  "let name = cookie_name (cookies_sessionToken opts);
       attrs = cookie_options (cookies_sessionToken opts);
       st = (case req_cookies req of None \<Rightarrow> JNull | Some jar \<Rightarrow> of_opt (map_of jar name));
       denied = [Status 302, SetHeader ''Location'' (baseUrl opts @ ''/error?error=AccessDenied''),
                 End None, Done];
       sent = (\<lambda>url. [Status 302, SetHeader ''Location'' url, End None, Done]);
       first_login = (case pages_newUser opts of
                        None \<Rightarrow> callback_or_site opts
                      | Some page \<Rightarrow>
                          if truthy (si_isNewUser h) \<and> page \<noteq> [] then page
                          else callback_or_site opts);
       payload = JObj [(''user'', si_user h), (''account'', account),
                       (''isNewUser'', si_isNewUser h)];
       arg = JObj [(''secret'', jwt_secret opts), (''token'', jp),
                   (''maxAge'', JNum (session_maxAge opts))];
       later_steps_succeed =
         (\<lambda>extra. callbackHandler w st profile account = Inr h \<and>
                   (if session_jwt opts
                    then callbacks_jwt opts (payload # extra) = Inr jp \<and>
                         jwt_encode opts arg = Inr tok \<and> cookie_expires w opts = Inr date
                    else js_get (si_session h) ''sessionToken'' = Inr stok \<and>
                         js_get (si_session h) ''expires'' = Inr ex) \<and>
                   dispatchEvent w payload = Inr u);
       signs_in =
         (\<lambda>extra url.
            [Call CallbackHandler [st, profile, account]] @
            (if session_jwt opts
             then [Call Jwt (payload # extra), Call JwtEncode [arg],
                   CookieSet name tok (spread [(''expires'', JStr date)] attrs)]
             else [CookieSet name stok (spread [(''expires'', js_or ex JNull)] attrs)]) @
            [Call DispatchEvent [payload]] @ sent url)
   in
   (map_of (providers opts) (providerName opts) = Some p \<and> provider_type p = ''discourse'' \<and>
    map_of (req_query req) ''sso'' = Some sso \<and> map_of (req_query req) ''sig'' = Some sig \<and>
    sso \<noteq> [] \<and> decodeURIComponent sso = Inr d \<and> sig = hex256 (hmac w (provider_secret p) d) \<and>
    obj_get (sso_decode sso) ''nonce'' = JStr n \<and> req_cookies req = Some cs \<and>
    map_of cs (cookie_name (cookies_nonceHash opts)) =
      Some (hex256 (hmac w (provider_secret p) n)) \<and>
    truthy (obj_get (sso_decode sso) ''external_id'') \<and>
    truthy (obj_get (sso_decode sso) ''email'') \<and>
    truthy (obj_get (sso_decode sso) ''username'') \<and>
    profile = discourse_profile (sso_decode sso) \<and>
    account = discourse_account p (sso_decode sso) \<and>
    callbacks_signin opts profile account JNull = Inr v \<longrightarrow>
      (v = JBool False \<longrightarrow>
         callback w opts req =
           ([Hmac d, Decode sso, Hmac n,
             CookieSet (cookie_name (cookies_nonceHash opts)) (JStr [])
               (spread [(''maxAge'', JNum (- 1))] (cookie_options (cookies_nonceHash opts))),
             Call Signin [profile, account, JNull]] @ denied, None)) \<and>
      (v \<noteq> JBool False \<and> later_steps_succeed [] \<longrightarrow>
         callback w opts req =
           ([Hmac d, Decode sso, Hmac n,
             CookieSet (cookie_name (cookies_nonceHash opts)) (JStr [])
               (spread [(''maxAge'', JNum (- 1))] (cookie_options (cookies_nonceHash opts))),
             Call Signin [profile, account, JNull]] @ signs_in [] (callback_or_site opts),
            None))) \<and>
   (map_of (providers opts) (providerName opts) = Some p \<and> provider_type p = ''oauth'' \<and>
    oAuthCallback w req = Inr (error, profile, account, raw) \<and> \<not> truthy error \<and>
    truthy profile \<and> callbacks_signin opts profile account raw = Inr v \<longrightarrow>
      (v = JBool False \<longrightarrow>
         callback w opts req =
           ([Call OAuthCallback [], LogDebug ''OAUTH_CALLBACK_RESPONSE'',
             Call Signin [profile, account, raw]] @ denied, None)) \<and>
      (v \<noteq> JBool False \<and> later_steps_succeed [raw] \<longrightarrow>
         callback w opts req =
           ([Call OAuthCallback [], LogDebug ''OAUTH_CALLBACK_RESPONSE'',
             Call Signin [profile, account, raw]] @ signs_in [raw] first_login, None))) \<and>
   (map_of (providers opts) (providerName opts) = Some p \<and> provider_type p = ''email'' \<and>
    adapter opts = Some (Inr fns) \<and> email = of_opt (map_of (req_query req) ''email'') \<and>
    token = of_opt (map_of (req_query req) ''token'') \<and>
    getVerificationRequest fns email token = Inr invite \<and> truthy invite \<and>
    deleteVerificationRequest fns email token = Inr deleted \<and>
    getUserByEmail fns email = Inr existing \<and>
    profile = js_or existing (JObj [(''email'', email)]) \<and>
    account = JObj [(''id'', JStr (provider_id p)), (''type'', JStr ''email''),
                    (''providerAccountId'', email)] \<and>
    callbacks_signin opts profile account JNull = Inr v \<longrightarrow>
      (v = JBool False \<longrightarrow>
         callback w opts req =
           ([Call GetAdapter [], Call GetVerificationRequest [email, token],
             Call DeleteVerificationRequest [email, token], Call GetUserByEmail [email],
             Call Signin [profile, account, JNull]] @ denied, None)) \<and>
      (v \<noteq> JBool False \<and> later_steps_succeed [] \<longrightarrow>
         callback w opts req =
           ([Call GetAdapter [], Call GetVerificationRequest [email, token],
             Call DeleteVerificationRequest [email, token], Call GetUserByEmail [email],
             Call Signin [profile, account, JNull]] @ signs_in [] first_login, None))) \<and>
   (map_of (providers opts) (providerName opts) = Some p \<and> provider_type p = ''credentials'' \<and>
    req_method req = ''POST'' \<and> session_jwt opts \<and> provider_authorize p = Some authorize \<and>
    authorize (req_body req) = Inr profile \<and> truthy profile \<and>
    account = JObj [(''id'', JStr (provider_id p)), (''type'', JStr ''credentials'')] \<and>
    callbacks_signin opts profile account (req_body req) = Inr v \<longrightarrow>
      (v = JBool False \<longrightarrow>
         callback w opts req =
           ([Call Authorize [req_body req], Call Signin [profile, account, req_body req]] @ denied,
            None)) \<and>
      (v \<noteq> JBool False \<and>
       callbacks_jwt opts [JObj [(''user'', profile), (''account'', account)]] = Inr jp \<and>
       jwt_encode opts arg = Inr tok \<and> cookie_expires w opts = Inr date \<and>
       dispatchEvent w (JObj [(''user'', profile), (''account'', account)]) = Inr u \<longrightarrow>
         callback w opts req =
           ([Call Authorize [req_body req], Call Signin [profile, account, req_body req],
             Call Jwt [JObj [(''user'', profile), (''account'', account)]], Call JwtEncode [arg],
             CookieSet name tok (spread [(''expires'', JStr date)] attrs),
             Call DispatchEvent [JObj [(''user'', profile), (''account'', account)]]] @
            sent (callback_or_site opts), None)))"
  unfolding Let_def
proof (intro conjI impI, goal_cases)
  case 1
  then show ?case
    by (clarsimp simp add: discourse_reaches_signin discourse_signin_def await_def emit_def redirect_def
        error_page_def)
next
  case 2
  then show ?case
    by (cases "session_jwt opts")
      (clarsimp simp add: discourse_reaches_signin discourse_signin_def issue_session_jwt
        issue_session_database dispatch_signin_resolved await_def emit_def redirect_def)+
next
  case 3
  then show ?case
    by (clarsimp simp add: callback_def oauth_callback_def oauth_body_def catch_def await_def emit_def
        redirect_def error_page_def)
next
  case 4
  then show ?case
    by (cases "session_jwt opts")
      (clarsimp simp add: callback_def oauth_callback_def oauth_body_def catch_def issue_session_jwt
        issue_session_database dispatch_signin_resolved new_user_or_callback_location await_def
        emit_def redirect_def)+
next
  case 5
  then show ?case
    by (clarsimp simp add: callback_def email_callback_def email_body_def catch_def await_def emit_def
        redirect_def error_page_def Let_def)
next
  case 6
  then show ?case
    by (cases "session_jwt opts")
      (clarsimp simp add: callback_def email_callback_def email_body_def catch_def issue_session_jwt
        issue_session_database dispatch_signin_resolved new_user_or_callback_location await_def
        emit_def redirect_def Let_def)+
next
  case 7
  then show ?case
    by (clarsimp simp add: callback_def credentials_callback_def credentials_signin_def await_def emit_def
        redirect_def error_page_def Let_def)
next
  case 8
  then show ?case
    by (clarsimp simp add: callback_def credentials_callback_def credentials_signin_def await_def emit_def
        redirect_def Let_def)
qed

text \<open>
  Examples.  With the payload of \<open>example_sso_request\<close>, a hook that returns
  \<open>false\<close> denies the discourse sign-in and one that returns \<open>undefined\<close> lets it
  through to the session cookie and the callback URL.  A hook that returns \<open>null\<close>
  lets a credentials sign-in through, one that returns \<open>0\<close> an oauth sign-in (with
  sessions kept in the database, to the new-user page), one that returns the empty
  string an email sign-in.
\<close>

lemma example_options_hooks:
  "providerName example_options = ''discourse''"
  "providers example_options = example_providers"
  "adapter example_options = Some (Inr example_adapter)"
  "jwt_encode example_options arg = Inr (JStr ''encoded.jwt'')"
  "callbacks_jwt example_options (payload # extra) = Inr payload"
  by (simp_all add: example_options_def)

lemma example_modules_fields:
  "hmac example_modules = example_hmac"
  "callbackHandler example_modules st profile account =
     Inr \<lparr>si_user = profile,
          si_session = JObj [(''sessionToken'', JStr ''s1''), (''expires'', JNull)],
          si_isNewUser = JBool True\<rparr>"
  "oAuthCallback example_modules req =
     Inr (JNull, JObj [(''id'', JNum 7), (''name'', JStr ''ann'')],
          JObj [(''provider'', JStr ''github'')], JObj [(''login'', JStr ''ann'')])"
  "dispatchEvent example_modules message = Inr JUndefined"
  by (simp_all add: example_modules_def)

lemma example_cookie_expires:
  "session_maxAge opts = 2592000 \<Longrightarrow>
   cookie_expires example_modules opts = Inr ''1970-01-31T00:00:00.000Z''"
  by (simp add: cookie_expires_def example_modules_def)

lemma example_spread_expires:
  "spread [(''expires'', v)] example_cookie_options =
     [(''expires'', v), (''httpOnly'', JBool True), (''sameSite'', JStr ''lax''),
      (''path'', JStr ''/''), (''secure'', JBool True)]"
  by (simp add: spread_def example_cookie_options_def)

theorem signin_hook_denies_only_false_witness:
  "callbacks_signin example_denying_options (discourse_profile (sso_decode example_sso))
     (discourse_account example_discourse (sso_decode example_sso)) JNull = Inr (JBool False) \<and>
   callback example_modules example_denying_options example_sso_request =
     ([Hmac example_sso, Decode example_sso, Hmac ''abc123'',
       CookieSet ''next-auth.nonce-hash'' (JStr [])
         [(''maxAge'', JNum (- 1)), (''httpOnly'', JBool True), (''sameSite'', JStr ''lax''),
          (''path'', JStr ''/''), (''secure'', JBool True)],
       Call Signin [discourse_profile (sso_decode example_sso),
                    discourse_account example_discourse (sso_decode example_sso), JNull],
       Status 302, SetHeader ''Location'' ''https://app/api/auth/error?error=AccessDenied'',
       End None, Done], None) \<and>
   callbacks_signin example_undefined_signin_options (discourse_profile (sso_decode example_sso))
     (discourse_account example_discourse (sso_decode example_sso)) JNull = Inr JUndefined \<and>
   callback example_modules example_undefined_signin_options example_sso_request =
     ([Hmac example_sso, Decode example_sso, Hmac ''abc123'',
       CookieSet ''next-auth.nonce-hash'' (JStr [])
         [(''maxAge'', JNum (- 1)), (''httpOnly'', JBool True), (''sameSite'', JStr ''lax''),
          (''path'', JStr ''/''), (''secure'', JBool True)],
       Call Signin [discourse_profile (sso_decode example_sso),
                    discourse_account example_discourse (sso_decode example_sso), JNull],
       Call CallbackHandler [JUndefined, discourse_profile (sso_decode example_sso),
                             discourse_account example_discourse (sso_decode example_sso)],
       Call Jwt [JObj [(''user'', discourse_profile (sso_decode example_sso)),
                       (''account'', discourse_account example_discourse (sso_decode example_sso)),
                       (''isNewUser'', JBool True)]],
       Call JwtEncode
         [JObj [(''secret'', JStr ''jwt-secret''),
                (''token'',
                 JObj [(''user'', discourse_profile (sso_decode example_sso)),
                       (''account'', discourse_account example_discourse (sso_decode example_sso)),
                       (''isNewUser'', JBool True)]),
                (''maxAge'', JNum 2592000)]],
       CookieSet ''next-auth.session-token'' (JStr ''encoded.jwt'')
         [(''expires'', JStr ''1970-01-31T00:00:00.000Z''), (''httpOnly'', JBool True),
          (''sameSite'', JStr ''lax''), (''path'', JStr ''/''), (''secure'', JBool True)],
       Call DispatchEvent
         [JObj [(''user'', discourse_profile (sso_decode example_sso)),
                (''account'', discourse_account example_discourse (sso_decode example_sso)),
                (''isNewUser'', JBool True)]],
       Status 302, SetHeader ''Location'' ''https://app/x'', End None, Done], None) \<and>
   callbacks_signin example_null_signin_options
     (JObj [(''id'', JNum 1), (''name'', JStr ''ann'')])
     (JObj [(''id'', JStr ''my login''), (''type'', JStr ''credentials'')])
     (JObj [(''password'', JStr ''hunter2'')]) = Inr JNull \<and>
   callback example_modules example_null_signin_options example_credentials_request =
     ([Call Authorize [JObj [(''password'', JStr ''hunter2'')]],
       Call Signin [JObj [(''id'', JNum 1), (''name'', JStr ''ann'')],
                    JObj [(''id'', JStr ''my login''), (''type'', JStr ''credentials'')],
                    JObj [(''password'', JStr ''hunter2'')]],
       Call Jwt [JObj [(''user'', JObj [(''id'', JNum 1), (''name'', JStr ''ann'')]),
                       (''account'',
                        JObj [(''id'', JStr ''my login''), (''type'', JStr ''credentials'')])]],
       Call JwtEncode
         [JObj [(''secret'', JStr ''jwt-secret''),
                (''token'',
                 JObj [(''user'', JObj [(''id'', JNum 1), (''name'', JStr ''ann'')]),
                       (''account'',
                        JObj [(''id'', JStr ''my login''), (''type'', JStr ''credentials'')])]),
                (''maxAge'', JNum 2592000)]],
       CookieSet ''next-auth.session-token'' (JStr ''encoded.jwt'')
         [(''expires'', JStr ''1970-01-31T00:00:00.000Z''), (''httpOnly'', JBool True),
          (''sameSite'', JStr ''lax''), (''path'', JStr ''/''), (''secure'', JBool True)],
       Call DispatchEvent
         [JObj [(''user'', JObj [(''id'', JNum 1), (''name'', JStr ''ann'')]),
                (''account'',
                 JObj [(''id'', JStr ''my login''), (''type'', JStr ''credentials'')])]],
       Status 302, SetHeader ''Location'' ''https://app/x'', End None, Done], None) \<and>
   callbacks_signin example_zero_signin_options
     (JObj [(''id'', JNum 7), (''name'', JStr ''ann'')]) (JObj [(''provider'', JStr ''github'')])
     (JObj [(''login'', JStr ''ann'')]) = Inr (JNum 0) \<and>
   callback example_modules example_zero_signin_options example_sso_request =
     ([Call OAuthCallback [], LogDebug ''OAUTH_CALLBACK_RESPONSE'',
       Call Signin [JObj [(''id'', JNum 7), (''name'', JStr ''ann'')],
                    JObj [(''provider'', JStr ''github'')], JObj [(''login'', JStr ''ann'')]],
       Call CallbackHandler [JUndefined, JObj [(''id'', JNum 7), (''name'', JStr ''ann'')],
                             JObj [(''provider'', JStr ''github'')]],
       CookieSet ''next-auth.session-token'' (JStr ''s1'')
         [(''expires'', JNull), (''httpOnly'', JBool True), (''sameSite'', JStr ''lax''),
          (''path'', JStr ''/''), (''secure'', JBool True)],
       Call DispatchEvent
         [JObj [(''user'', JObj [(''id'', JNum 7), (''name'', JStr ''ann'')]),
                (''account'', JObj [(''provider'', JStr ''github'')]),
                (''isNewUser'', JBool True)]],
       Status 302, SetHeader ''Location'' ''https://app/welcome'', End None, Done], None) \<and>
   callbacks_signin example_empty_signin_options (JObj [(''email'', JStr ''a@b.com'')])
     (JObj [(''id'', JStr ''email''), (''type'', JStr ''email''),
            (''providerAccountId'', JStr ''a@b.com'')]) JNull = Inr (JStr []) \<and>
   callback example_modules example_empty_signin_options example_email_request =
     ([Call GetAdapter [], Call GetVerificationRequest [JStr ''a@b.com'', JStr ''tok''],
       Call DeleteVerificationRequest [JStr ''a@b.com'', JStr ''tok''],
       Call GetUserByEmail [JStr ''a@b.com''],
       Call Signin [JObj [(''email'', JStr ''a@b.com'')],
                    JObj [(''id'', JStr ''email''), (''type'', JStr ''email''),
                          (''providerAccountId'', JStr ''a@b.com'')], JNull],
       Call CallbackHandler [JUndefined, JObj [(''email'', JStr ''a@b.com'')],
                             JObj [(''id'', JStr ''email''), (''type'', JStr ''email''),
                                   (''providerAccountId'', JStr ''a@b.com'')]],
       Call Jwt [JObj [(''user'', JObj [(''email'', JStr ''a@b.com'')]),
                       (''account'',
                        JObj [(''id'', JStr ''email''), (''type'', JStr ''email''),
                              (''providerAccountId'', JStr ''a@b.com'')]),
                       (''isNewUser'', JBool True)]],
       Call JwtEncode
         [JObj [(''secret'', JStr ''jwt-secret''),
                (''token'',
                 JObj [(''user'', JObj [(''email'', JStr ''a@b.com'')]),
                       (''account'',
                        JObj [(''id'', JStr ''email''), (''type'', JStr ''email''),
                              (''providerAccountId'', JStr ''a@b.com'')]),
                       (''isNewUser'', JBool True)]),
                (''maxAge'', JNum 2592000)]],
       CookieSet ''next-auth.session-token'' (JStr ''encoded.jwt'')
         [(''expires'', JStr ''1970-01-31T00:00:00.000Z''), (''httpOnly'', JBool True),
          (''sameSite'', JStr ''lax''), (''path'', JStr ''/''), (''secure'', JBool True)],
       Call DispatchEvent
         [JObj [(''user'', JObj [(''email'', JStr ''a@b.com'')]),
                (''account'',
                 JObj [(''id'', JStr ''email''), (''type'', JStr ''email''),
                       (''providerAccountId'', JStr ''a@b.com'')]),
                (''isNewUser'', JBool True)]],
       Status 302, SetHeader ''Location'' ''https://app/welcome'', End None, Done], None)"
proof -
  let ?P = "discourse_profile (sso_decode example_sso)"
  let ?A = "discourse_account example_discourse (sso_decode example_sso)"
  let ?H = "\<lambda>profile. \<lparr>si_user = profile,
                         si_session = JObj [(''sessionToken'', JStr ''s1''), (''expires'', JNull)],
                         si_isNewUser = JBool True\<rparr>"
  let ?date = "''1970-01-31T00:00:00.000Z''"
  let ?user = "JObj [(''id'', JNum 1), (''name'', JStr ''ann'')]"
  let ?body = "JObj [(''password'', JStr ''hunter2'')]"
  let ?cred = "JObj [(''id'', JStr ''my login''), (''type'', JStr ''credentials'')]"
  let ?github = "example_discourse\<lparr>provider_id := ''github'', provider_type := ''oauth''\<rparr>"
  let ?gp = "JObj [(''id'', JNum 7), (''name'', JStr ''ann'')]"
  let ?ga = "JObj [(''provider'', JStr ''github'')]"
  let ?raw = "JObj [(''login'', JStr ''ann'')]"
  let ?ep = "JObj [(''email'', JStr ''a@b.com'')]"
  let ?ea = "JObj [(''id'', JStr ''email''), (''type'', JStr ''email''),
                  (''providerAccountId'', JStr ''a@b.com'')]"
  have q: "req_query example_sso_request = [(''sso'', example_sso), (''sig'', example_sig)]"
    and c: "req_cookies example_sso_request = Some [(''next-auth.nonce-hash'', example_nonce_hash)]"
    by (simp_all add: example_sso_request_def)
  have eq: "example_sig = hex256 (example_hmac ''s3cret'' example_sso)"
    by (simp add: example_sig_def)
  have s: "provider_secret example_discourse = ''s3cret''"
    by (simp add: example_discourse_def)
  note discourse_facts =
    example_options_fields example_options_hooks example_lookup [unfolded example_options_hooks]
    example_type q c eq s example_modules_fields example_sso_nonempty example_sso_plain
    example_sso_decoded obj_get_def example_nonce_hash_def example_spread example_spread_expires
    example_cookie_expires callback_or_site_def of_opt_def
  have d1: "callbacks_signin example_denying_options ?P ?A JNull = Inr (JBool False)"
    by (simp add: example_denying_options_def)
  have r1: "callback example_modules example_denying_options example_sso_request =
     ([Hmac example_sso, Decode example_sso, Hmac ''abc123'',
       CookieSet ''next-auth.nonce-hash'' (JStr [])
         [(''maxAge'', JNum (- 1)), (''httpOnly'', JBool True), (''sameSite'', JStr ''lax''),
          (''path'', JStr ''/''), (''secure'', JBool True)],
       Call Signin [?P, ?A, JNull],
       Status 302, SetHeader ''Location'' ''https://app/api/auth/error?error=AccessDenied'',
       End None, Done], None)"
    using signin_hook_denies_only_false
      [where w = example_modules and opts = example_denying_options and req = example_sso_request
         and p = example_discourse and sso = example_sso and sig = example_sig
         and d = example_sso and n = "''abc123''"
         and cs = "[(''next-auth.nonce-hash'', example_nonce_hash)]"
         and profile = ?P and account = ?A and v = "JBool False" and h = "?H ?P" and jp = JNull
         and tok = JNull and date = "[]" and stok = JNull and ex = JNull and u = JNull
         and error = JNull and raw = JNull and fns = example_adapter and email = JNull
         and token = JNull and invite = JNull and deleted = JNull and existing = JNull
         and authorize = example_authorize]
    by (simp add: Let_def example_denying_options_def discourse_facts)
  have d2: "callbacks_signin example_undefined_signin_options ?P ?A JNull = Inr JUndefined"
    by (simp add: example_undefined_signin_options_def)
  have r2: "callback example_modules example_undefined_signin_options example_sso_request =
     ([Hmac example_sso, Decode example_sso, Hmac ''abc123'',
       CookieSet ''next-auth.nonce-hash'' (JStr [])
         [(''maxAge'', JNum (- 1)), (''httpOnly'', JBool True), (''sameSite'', JStr ''lax''),
          (''path'', JStr ''/''), (''secure'', JBool True)],
       Call Signin [?P, ?A, JNull], Call CallbackHandler [JUndefined, ?P, ?A],
       Call Jwt [JObj [(''user'', ?P), (''account'', ?A), (''isNewUser'', JBool True)]],
       Call JwtEncode
         [JObj [(''secret'', JStr ''jwt-secret''),
                (''token'', JObj [(''user'', ?P), (''account'', ?A), (''isNewUser'', JBool True)]),
                (''maxAge'', JNum 2592000)]],
       CookieSet ''next-auth.session-token'' (JStr ''encoded.jwt'')
         [(''expires'', JStr ?date), (''httpOnly'', JBool True),
          (''sameSite'', JStr ''lax''), (''path'', JStr ''/''), (''secure'', JBool True)],
       Call DispatchEvent [JObj [(''user'', ?P), (''account'', ?A), (''isNewUser'', JBool True)]],
       Status 302, SetHeader ''Location'' ''https://app/x'', End None, Done], None)"
    using signin_hook_denies_only_false
      [where w = example_modules and opts = example_undefined_signin_options
         and req = example_sso_request and p = example_discourse and sso = example_sso
         and sig = example_sig and d = example_sso and n = "''abc123''"
         and cs = "[(''next-auth.nonce-hash'', example_nonce_hash)]"
         and profile = ?P and account = ?A and v = JUndefined and h = "?H ?P"
         and jp = "JObj [(''user'', ?P), (''account'', ?A), (''isNewUser'', JBool True)]"
         and tok = "JStr ''encoded.jwt''" and date = ?date and stok = JNull and ex = JNull
         and u = JUndefined and error = JNull and raw = JNull and fns = example_adapter
         and email = JNull and token = JNull and invite = JNull and deleted = JNull
         and existing = JNull and authorize = example_authorize]
    by (simp add: Let_def example_undefined_signin_options_def discourse_facts)
  have d3: "callbacks_signin example_null_signin_options ?user ?cred ?body = Inr JNull"
    by (simp add: example_null_signin_options_def)
  have r3: "callback example_modules example_null_signin_options example_credentials_request =
     ([Call Authorize [?body], Call Signin [?user, ?cred, ?body],
       Call Jwt [JObj [(''user'', ?user), (''account'', ?cred)]],
       Call JwtEncode
         [JObj [(''secret'', JStr ''jwt-secret''),
                (''token'', JObj [(''user'', ?user), (''account'', ?cred)]),
                (''maxAge'', JNum 2592000)]],
       CookieSet ''next-auth.session-token'' (JStr ''encoded.jwt'')
         [(''expires'', JStr ?date), (''httpOnly'', JBool True),
          (''sameSite'', JStr ''lax''), (''path'', JStr ''/''), (''secure'', JBool True)],
       Call DispatchEvent [JObj [(''user'', ?user), (''account'', ?cred)]],
       Status 302, SetHeader ''Location'' ''https://app/x'', End None, Done], None)"
    using signin_hook_denies_only_false
      [where w = example_modules and opts = example_null_signin_options
         and req = example_credentials_request and p = example_credentials_provider
         and sso = "[]" and sig = "[]" and d = "[]" and n = "[]" and cs = "[]"
         and profile = ?user and account = ?cred and v = JNull and h = "?H ?user"
         and jp = "JObj [(''user'', ?user), (''account'', ?cred)]"
         and tok = "JStr ''encoded.jwt''" and date = ?date and stok = JNull and ex = JNull
         and u = JUndefined and error = JNull and raw = JNull and fns = example_adapter
         and email = JNull and token = JNull and invite = JNull and deleted = JNull
         and existing = JNull and authorize = example_authorize]
    by (simp add: Let_def example_null_signin_options_def example_credentials_options_def
        example_options_fields example_options_hooks example_providers_def example_discourse_def
        example_credentials_provider_def example_credentials_request_def example_authorize_def
        example_modules_fields example_spread_expires example_cookie_expires callback_or_site_def)
  have d4: "callbacks_signin example_zero_signin_options ?gp ?ga ?raw = Inr (JNum 0)"
    by (simp add: example_zero_signin_options_def)
  have r4: "callback example_modules example_zero_signin_options example_sso_request =
     ([Call OAuthCallback [], LogDebug ''OAUTH_CALLBACK_RESPONSE'', Call Signin [?gp, ?ga, ?raw],
       Call CallbackHandler [JUndefined, ?gp, ?ga],
       CookieSet ''next-auth.session-token'' (JStr ''s1'')
         [(''expires'', JNull), (''httpOnly'', JBool True), (''sameSite'', JStr ''lax''),
          (''path'', JStr ''/''), (''secure'', JBool True)],
       Call DispatchEvent [JObj [(''user'', ?gp), (''account'', ?ga), (''isNewUser'', JBool True)]],
       Status 302, SetHeader ''Location'' ''https://app/welcome'', End None, Done], None)"
    using signin_hook_denies_only_false
      [where w = example_modules and opts = example_zero_signin_options
         and req = example_sso_request and p = ?github
         and sso = "[]" and sig = "[]" and d = "[]" and n = "[]" and cs = "[]"
         and profile = ?gp and account = ?ga and v = "JNum 0" and h = "?H ?gp"
         and jp = JNull and tok = JNull and date = "[]" and stok = "JStr ''s1''" and ex = JNull
         and u = JUndefined and error = JNull and raw = ?raw and fns = example_adapter
         and email = JNull and token = JNull and invite = JNull and deleted = JNull
         and existing = JNull and authorize = example_authorize]
    by (simp add: Let_def example_zero_signin_options_def example_github_options_def
        example_options_fields example_options_hooks example_providers_def example_discourse_def
        c example_modules_fields example_spread_expires obj_get_def js_or_def
        callback_or_site_def of_opt_def)
  have d5: "callbacks_signin example_empty_signin_options ?ep ?ea JNull = Inr (JStr [])"
    by (simp add: example_empty_signin_options_def)
  have r5: "callback example_modules example_empty_signin_options example_email_request =
     ([Call GetAdapter [], Call GetVerificationRequest [JStr ''a@b.com'', JStr ''tok''],
       Call DeleteVerificationRequest [JStr ''a@b.com'', JStr ''tok''],
       Call GetUserByEmail [JStr ''a@b.com''], Call Signin [?ep, ?ea, JNull],
       Call CallbackHandler [JUndefined, ?ep, ?ea],
       Call Jwt [JObj [(''user'', ?ep), (''account'', ?ea), (''isNewUser'', JBool True)]],
       Call JwtEncode
         [JObj [(''secret'', JStr ''jwt-secret''),
                (''token'', JObj [(''user'', ?ep), (''account'', ?ea), (''isNewUser'', JBool True)]),
                (''maxAge'', JNum 2592000)]],
       CookieSet ''next-auth.session-token'' (JStr ''encoded.jwt'')
         [(''expires'', JStr ?date), (''httpOnly'', JBool True),
          (''sameSite'', JStr ''lax''), (''path'', JStr ''/''), (''secure'', JBool True)],
       Call DispatchEvent [JObj [(''user'', ?ep), (''account'', ?ea), (''isNewUser'', JBool True)]],
       Status 302, SetHeader ''Location'' ''https://app/welcome'', End None, Done], None)"
    using signin_hook_denies_only_false
      [where w = example_modules and opts = example_empty_signin_options
         and req = example_email_request and p = example_email_provider
         and sso = "[]" and sig = "[]" and d = "[]" and n = "[]" and cs = "[]"
         and profile = ?ep and account = ?ea and v = "JStr []" and h = "?H ?ep"
         and jp = "JObj [(''user'', ?ep), (''account'', ?ea), (''isNewUser'', JBool True)]"
         and tok = "JStr ''encoded.jwt''" and date = ?date and stok = JNull and ex = JNull
         and u = JUndefined and error = JNull and raw = JNull and fns = example_adapter
         and email = "JStr ''a@b.com''" and token = "JStr ''tok''"
         and invite = "JObj [(''identifier'', JStr ''a@b.com'')]" and deleted = JUndefined
         and existing = JNull and authorize = example_authorize]
    by (simp add: Let_def example_empty_signin_options_def example_email_options_def
        example_options_fields example_options_hooks example_providers_def example_discourse_def
        example_email_provider_def example_email_request_def example_adapter_def of_opt_def
        example_modules_fields example_spread_expires example_cookie_expires js_or_def
        callback_or_site_def)
  from d1 r1 d2 r2 d3 r3 d4 r4 d5 r5 show ?thesis by simp
qed

end
